theory Spec2Isabelle
  imports Main
begin

section \<open>Python string operations used by CodeSampleGen.py\<close>

text \<open>
  A Python \<open>str\<close> is modelled as a \<open>string\<close>: one \<open>char\<close> per code point (so the model
  covers the code points below 256). The four string methods the program calls are
  written out: \<open>startswith\<close>, \<open>replace\<close>, \<open>strip\<close> and \<open>split\<close>.
\<close>

text \<open>\<open>s.startswith(p)\<close>: the arguments are in the order of the Python call.\<close>

fun startswith :: "string \<Rightarrow> string \<Rightarrow> bool" where
  "startswith s [] = True"
| "startswith [] (p # ps) = False"
| "startswith (c # cs) (p # ps) = (c = p \<and> startswith cs ps)"

text \<open>
  \<open>s.replace(old, new)\<close>: every non-overlapping occurrence of \<open>old\<close>, found scanning from
  the left, is replaced. For an empty \<open>old\<close> Python inserts \<open>new\<close> before every character
  and at the end.
\<close>

function py_replace :: "string \<Rightarrow> string \<Rightarrow> string \<Rightarrow> string" where
  "py_replace [] new s = new @ concat (map (\<lambda>c. c # new) s)"
| "py_replace (p # ps) new [] = []"
| "py_replace (p # ps) new (c # cs) =
     (if startswith (c # cs) (p # ps)
      then new @ py_replace (p # ps) new (drop (length ps) cs)
      else c # py_replace (p # ps) new cs)"
  by pat_completeness auto
termination
  by (relation "measure (\<lambda>(old, new, s). length s)") auto

text \<open>
  The characters \<open>str.strip()\<close> removes: the code points below 256 for which Python's
  \<open>str.isspace\<close> holds (tab, line feed, vertical tab, form feed, carriage return, the four
  separators 0x1C to 0x1F, space, next line 0x85 and no-break space 0xA0).
\<close>

definition py_isspace :: "char \<Rightarrow> bool" where
  "py_isspace c = (c \<in> set [CHR 0x09, CHR 0x0A, CHR 0x0B, CHR 0x0C, CHR 0x0D,
      CHR 0x1C, CHR 0x1D, CHR 0x1E, CHR 0x1F, CHR 0x20, CHR 0x85, CHR 0xA0])"

definition py_strip :: "string \<Rightarrow> string" where
  "py_strip s = rev (dropWhile py_isspace (rev (dropWhile py_isspace s)))"

text \<open>
  \<open>s.split(sep)\<close> for a separator of one character: the pieces between the separators,
  empty pieces kept, so that the result is never the empty list.
\<close>

fun py_split :: "char \<Rightarrow> string \<Rightarrow> string list" where
  "py_split sep [] = [[]]"
| "py_split sep (c # cs) =
     (if c = sep then [] # py_split sep cs
      else (case py_split sep cs of
              [] \<Rightarrow> [[c]]
            | l # ls \<Rightarrow> (c # l) # ls))"

text \<open>A slice \<open>s[i:j]\<close> with indices that are not negative, as tree-sitter's offsets are.\<close>

definition py_slice :: "string \<Rightarrow> nat \<Rightarrow> nat \<Rightarrow> string" where
  "py_slice s i j = take (j - i) (drop i s)"

section \<open>Data\<close>

text \<open>The dictionaries \<open>extract_code\<close> builds, one for each file read.\<close>

record code_file =
  path :: string
  content :: string
  repo :: string

text \<open>
  The dictionaries \<open>generate_qa_pairs\<close> appends to \<open>qa_pairs\<close>; \<open>qa_file\<close> and
  \<open>qa_repo\<close> are the keys \<open>file\<close> and \<open>repo\<close>.
\<close>

record qa_record =
  question :: string
  answer :: string
  code_snippet :: string
  reasoning :: string
  qa_file :: string
  qa_repo :: string

text \<open>
  What the program reads of a tree-sitter node: its text (decoded) and its byte range.
\<close>

record ts_node =
  node_text :: string
  start_byte :: nat
  end_byte :: nat

section \<open>The response parser (lines 114 to 130 of \<open>generate_qa_pairs\<close>)\<close>

text \<open>
  The body of the loop over the lines of one response. The state is the pair of
  \<open>current_q\<close> (\<open>None\<close> as in Python) and the list \<open>qa_pairs\<close>. The test
  \<open>if current_q:\<close> is Python's truth of a value: it fails for \<open>None\<close> and for the
  empty string.
\<close>

definition qa_line ::
  "code_file \<Rightarrow> string \<Rightarrow> string \<Rightarrow> string option \<times> qa_record list \<Rightarrow> string
     \<Rightarrow> string option \<times> qa_record list" where
  "qa_line f func_name func_code st line =
     (case st of (current_q, qa_pairs) \<Rightarrow>
        if startswith line ''Question:''
        then (Some (py_strip (py_replace ''Question:'' [] line)), qa_pairs)
        else if startswith line ''Answer:''
        then (case current_q of
                None \<Rightarrow> (current_q, qa_pairs)
              | Some q \<Rightarrow>
                  if q \<noteq> []
                  then (None, qa_pairs @
                         [\<lparr>question = q,
                           answer = py_strip (py_replace ''Answer:'' [] line),
                           code_snippet = func_code,
                           reasoning = ''Generated from function '' @ func_name @ '' in ''
                                         @ path f @ '' using StarCoder GGUF.'',
                           qa_file = path f,
                           qa_repo = repo f\<rparr>])
                  else (current_q, qa_pairs))
        else (current_q, qa_pairs))"

text \<open>
  The response is split at line feeds, \<open>current_q\<close> starts as \<open>None\<close>, and the loop runs
  over the lines; what is left is the list \<open>qa_pairs\<close>.
\<close>

definition parse_response ::
  "code_file \<Rightarrow> string \<Rightarrow> string \<Rightarrow> string \<Rightarrow> qa_record list \<Rightarrow> qa_record list" where
  "parse_response f func_name func_code response qa_pairs =
     snd (foldl (qa_line f func_name func_code) (None, qa_pairs)
            (py_split (CHR 0x0A) response))"

section \<open>Exceptions, the module namespace and the libraries\<close>

text \<open>
  The exceptions the program raises itself (\<open>FileNotFoundError\<close>, \<open>ValueError\<close>,
  \<open>RuntimeError\<close>), the ones Python and the libraries raise on the paths modelled here,
  and \<open>KeyboardInterrupt\<close>, which stands for the exceptions that do not derive from
  \<open>Exception\<close> and that \<open>except Exception\<close> therefore lets through.
\<close>

datatype py_exc =
    NameError string
  | AttributeError string
  | FileNotFoundError string
  | FileExistsError string
  | NotADirectoryError string
  | ValueError string
  | RuntimeError string
  | TypeError string
  | OtherException string
  | KeyboardInterrupt

fun is_Exception :: "py_exc \<Rightarrow> bool" where
  "is_Exception KeyboardInterrupt = False"
| "is_Exception e = True"

text \<open>\<open>str(e)\<close>, as the messages printed by the handlers show it.\<close>

fun exc_str :: "py_exc \<Rightarrow> string" where
  "exc_str (NameError m) = m"
| "exc_str (AttributeError m) = m"
| "exc_str (FileNotFoundError m) = m"
| "exc_str (FileExistsError m) = m"
| "exc_str (NotADirectoryError m) = m"
| "exc_str (ValueError m) = m"
| "exc_str (RuntimeError m) = m"
| "exc_str (TypeError m) = m"
| "exc_str (OtherException m) = m"
| "exc_str KeyboardInterrupt = []"

text \<open>The configuration constants of lines 10 to 13.\<close>

definition REPO_PATH :: string where
  "REPO_PATH = ''C:/Users/cym/Documents/flask''"

definition OUTPUT_PATH :: string where
  "OUTPUT_PATH = ''C:/Users/cym/Documents/output_data''"

definition FILE_EXTENSION :: string where
  "FILE_EXTENSION = ''.py''"

definition MODEL_PATH :: string where
  "MODEL_PATH = ''C:/Users/cym/models/starcoder-q5_K_M.gguf''"

text \<open>
  A function of the module reads a name that is not one of its locals in the module's
  namespace, at the time of the call. \<open>module_globals\<close> is the namespace the module's own
  top-level statements build: its imports, its four constants and its six functions.
  \<open>PY_LANGUAGE\<close> is not among them: the only assignment to it is in the body of
  \<open>initialize_parser\<close> (line 43), where it is a local variable.
\<close>

datatype 'l py_global = PyStr string | PyLang 'l | PyObject

definition module_globals :: "string \<Rightarrow> 'l py_global option" where
  "module_globals = map_of
     [(''os'', PyObject), (''pd'', PyObject), (''Path'', PyObject), (''List'', PyObject),
      (''Dict'', PyObject), (''Any'', PyObject), (''Llama'', PyObject),
      (''Parser'', PyObject), (''python_language'', PyObject),
      (''REPO_PATH'', PyStr REPO_PATH), (''OUTPUT_PATH'', PyStr OUTPUT_PATH),
      (''FILE_EXTENSION'', PyStr FILE_EXTENSION), (''MODEL_PATH'', PyStr MODEL_PATH),
      (''initialize_model'', PyObject), (''initialize_parser'', PyObject),
      (''extract_code'', PyObject), (''generate_qa_pairs'', PyObject),
      (''save_qa_pairs'', PyObject), (''main'', PyObject)]"

text \<open>
  The expression \<open>PY_LANGUAGE.query\<close> of line 99 in a namespace \<open>G\<close>: a \<open>NameError\<close>
  when the name is unbound, the language object when it is bound to one.
\<close>

definition load_PY_LANGUAGE :: "(string \<Rightarrow> 'l py_global option) \<Rightarrow> py_exc + 'l" where
  "load_PY_LANGUAGE G =
     (case G ''PY_LANGUAGE'' of
        None \<Rightarrow> Inl (NameError ''name 'PY_LANGUAGE' is not defined'')
      | Some (PyLang l) \<Rightarrow> Inr l
      | Some (PyStr v) \<Rightarrow> Inl (AttributeError ''object has no attribute 'query' '')
      | Some PyObject \<Rightarrow> Inl (AttributeError ''object has no attribute 'query' ''))"

text \<open>
  One match of the query pattern \<open>(function_definition name: (identifier) @func_name)\<close>:
  the \<open>function_definition\<close> node that matched and its \<open>name\<close> child. Only the child
  carries a capture name, so \<open>query.captures\<close> returns the children.
\<close>

record ts_match =
  func_def :: ts_node
  func_name_node :: ts_node

definition captures_of :: "ts_match list \<Rightarrow> (ts_node \<times> string) list" where
  "captures_of ms = map (\<lambda>m. (func_name_node m, ''func_name'')) ms"

text \<open>
  The libraries and the operating system are parameters of the model: \<open>'m\<close> is the state
  of the loaded model (a call may change it: generation samples at temperature 0.7),
  \<open>'p\<close> the parser, \<open>'l\<close> the language object, \<open>'t\<close> a syntax tree and \<open>'fs\<close> the file
  system. Every call that can raise returns a sum, with the exception on the left.
  \<^item> \<open>rglob\<close> gives the files found, each as its path relative to the repository;
  \<^item> \<open>ts_init\<close> is \<open>Parser()\<close>, \<open>python_language()\<close> and \<open>set_language\<close> together;
  \<^item> \<open>ts_parse\<close> is \<open>parser.parse(bytes(content, "utf-8"))\<close>;
  \<^item> \<open>ts_query\<close> builds the query and matches it on the root of the tree;
  \<^item> \<open>backend\<close> is the call of the model with \<open>max_tokens=2048\<close> and the reading of
    \<open>["choices"][0]["text"]\<close>;
  \<^item> \<open>mkdir_exist_ok\<close> is \<open>Path(dir).mkdir(exist_ok=True)\<close>;
  \<^item> \<open>to_json\<close> is the construction of the data frame and its \<open>to_json\<close>.
\<close>

record ('m, 'p, 'l, 't, 'fs) env =
  path_exists :: "'fs \<Rightarrow> string \<Rightarrow> bool"
  llama_load :: "'fs \<Rightarrow> string \<Rightarrow> nat \<Rightarrow> py_exc + 'm"
  ts_init :: "py_exc + 'p"
  rglob :: "'fs \<Rightarrow> string \<Rightarrow> string \<Rightarrow> string list"
  read_text :: "'fs \<Rightarrow> string \<Rightarrow> string \<Rightarrow> py_exc + string"
  path_name :: "string \<Rightarrow> string"
  ts_parse :: "'p \<Rightarrow> string \<Rightarrow> py_exc + 't"
  ts_query :: "'l \<Rightarrow> 't \<Rightarrow> py_exc + ts_match list"
  backend :: "'m \<Rightarrow> string \<Rightarrow> (py_exc + string) \<times> 'm"
  mkdir_exist_ok :: "'fs \<Rightarrow> string \<Rightarrow> py_exc + 'fs"
  path_join :: "string \<Rightarrow> string \<Rightarrow> string"
  to_json :: "'fs \<Rightarrow> string \<Rightarrow> qa_record list \<Rightarrow> py_exc option \<times> 'fs"

section \<open>\<open>initialize_model\<close>, \<open>initialize_parser\<close>, \<open>extract_code\<close>\<close>

definition initialize_model ::
  "('m, 'p, 'l, 't, 'fs) env \<Rightarrow> 'fs \<Rightarrow> string \<Rightarrow> nat \<Rightarrow> py_exc + 'm" where
  "initialize_model E fs model_path n_ctx =
     (if \<not> path_exists E fs model_path
      then Inl (FileNotFoundError
                  ''Model file not found at [USER_HOME]/models/starcoder-q5_K_M.gguf'')
      else llama_load E fs model_path n_ctx)"

text \<open>
  \<open>PY_LANGUAGE\<close> is assigned here as a local and is gone when the function returns: only
  the parser is returned.
\<close>

definition initialize_parser :: "('m, 'p, 'l, 't, 'fs) env \<Rightarrow> py_exc + 'p" where
  "initialize_parser E =
     (case ts_init E of
        Inr parser \<Rightarrow> Inr parser
      | Inl e \<Rightarrow>
          if is_Exception e
          then Inl (RuntimeError (''Failed to initialize parser: '' @ exc_str e))
          else Inl e)"

text \<open>
  The body of the loop of \<open>extract_code\<close> (lines 69 to 79) on the pair of \<open>code_files\<close>
  and the lines printed so far.
\<close>

definition extract_file ::
  "('m, 'p, 'l, 't, 'fs) env \<Rightarrow> 'fs \<Rightarrow> string \<Rightarrow> code_file list \<times> string list \<Rightarrow> string
     \<Rightarrow> py_exc option \<times> code_file list \<times> string list" where
  "extract_file E fs repo_path st rel =
     (case st of (code_files, out) \<Rightarrow>
        (case read_text E fs repo_path rel of
           Inr code \<Rightarrow>
             (None,
              code_files @ [\<lparr>path = rel, content = code, repo = path_name E repo_path\<rparr>],
              out @ [''Extracted file: [USER_HOME]/Documents/flask/'' @ rel])
         | Inl e \<Rightarrow>
             if is_Exception e
             then (None, code_files,
                   out @ [''Failed to read file '' @ rel @ '': '' @ exc_str e])
             else (Some e, code_files, out)))"

fun extract_files ::
  "('m, 'p, 'l, 't, 'fs) env \<Rightarrow> 'fs \<Rightarrow> string \<Rightarrow> code_file list \<times> string list
     \<Rightarrow> string list \<Rightarrow> py_exc option \<times> code_file list \<times> string list" where
  "extract_files E fs repo_path st [] = (None, st)"
| "extract_files E fs repo_path st (rel # rels) =
     (case extract_file E fs repo_path st rel of
        (None, st') \<Rightarrow> extract_files E fs repo_path st' rels
      | (Some e, st') \<Rightarrow> (Some e, st'))"

definition extract_code ::
  "('m, 'p, 'l, 't, 'fs) env \<Rightarrow> 'fs \<Rightarrow> string \<Rightarrow> string \<Rightarrow> string list
     \<Rightarrow> (py_exc + code_file list) \<times> string list" where
  "extract_code E fs repo_path file_extension out =
     (if \<not> path_exists E fs repo_path
      then (Inl (ValueError
                   ''Repository path [USER_HOME]/Documents/flask does not exist''), out)
      else (case extract_files E fs repo_path ([], out)
                   (rglob E fs repo_path file_extension) of
              (None, code_files, out') \<Rightarrow> (Inr code_files, out')
            | (Some e, code_files, out') \<Rightarrow> (Inl e, out')))"

section \<open>\<open>generate_qa_pairs\<close>\<close>

text \<open>
  What the loops of \<open>generate_qa_pairs\<close> change: the list \<open>qa_pairs\<close>, the state of the
  model and the lines printed.
\<close>

record 'm run =
  qa_pairs :: "qa_record list"
  model_state :: 'm
  stdout :: "string list"

text \<open>The prompt of lines 108 to 111.\<close>

definition make_prompt :: "string \<Rightarrow> string" where
  "make_prompt func_code =
     ''Generate 3 questions and answers to help understand the functionality of this Python function:\<newline>''
     @ func_code @ ''\<newline>\<newline>Format:\<newline>Question: ...\<newline>Answer: ...''"

text \<open>
  The body of the loop over the captures (lines 106 to 132). \<open>node\<close> is the captured
  node, and \<open>func_code\<close> is the file's text (a \<open>str\<close>) sliced at the byte offsets of that
  node. An exception of the model is caught by the inner \<open>except Exception\<close>; one that
  is not an \<open>Exception\<close> leaves the function.
\<close>

definition qa_unit ::
  "('m, 'p, 'l, 't, 'fs) env \<Rightarrow> code_file \<Rightarrow> 'm run \<Rightarrow> ts_node \<times> string
     \<Rightarrow> py_exc option \<times> 'm run" where
  "qa_unit E f st cap =
     (case cap of (node, _) \<Rightarrow>
        let func_name = node_text node;
            func_code = py_slice (content f) (start_byte node) (end_byte node);
            prompt = make_prompt func_code
        in (case backend E (model_state st) prompt of
              (Inr response, m') \<Rightarrow>
                (None, st\<lparr>qa_pairs := parse_response f func_name func_code response
                                        (qa_pairs st),
                          model_state := m'\<rparr>)
            | (Inl e, m') \<Rightarrow>
                if is_Exception e
                then (None, st\<lparr>model_state := m',
                               stdout := stdout st @
                                 [''Failed to generate QA for '' @ path f @ '', function ''
                                    @ func_name @ '': '' @ exc_str e]\<rparr>)
                else (Some e, st\<lparr>model_state := m'\<rparr>)))"

fun qa_units ::
  "('m, 'p, 'l, 't, 'fs) env \<Rightarrow> code_file \<Rightarrow> 'm run \<Rightarrow> (ts_node \<times> string) list
     \<Rightarrow> py_exc option \<times> 'm run" where
  "qa_units E f st [] = (None, st)"
| "qa_units E f st (cap # caps) =
     (case qa_unit E f st cap of
        (None, st') \<Rightarrow> qa_units E f st' caps
      | (Some e, st') \<Rightarrow> (Some e, st'))"

text \<open>The outer handler (lines 133 and 134).\<close>

definition file_handler :: "code_file \<Rightarrow> py_exc \<Rightarrow> 'm run \<Rightarrow> py_exc option \<times> 'm run" where
  "file_handler f e st =
     (if is_Exception e
      then (None, st\<lparr>stdout := stdout st @
                       [''Error processing file '' @ path f @ '': '' @ exc_str e]\<rparr>)
      else (Some e, st))"

text \<open>
  The body of the loop over the files (lines 97 to 134): the parse, the lookup of
  \<open>PY_LANGUAGE\<close> in the namespace \<open>G\<close> and the query, then the loop over the captures.
\<close>

definition qa_file_step ::
  "('m, 'p, 'l, 't, 'fs) env \<Rightarrow> (string \<Rightarrow> 'l py_global option) \<Rightarrow> 'p \<Rightarrow> 'm run \<Rightarrow> code_file
     \<Rightarrow> py_exc option \<times> 'm run" where
  "qa_file_step E G parser st f =
     (case ts_parse E parser (content f) of
        Inl e \<Rightarrow> file_handler f e st
      | Inr tree \<Rightarrow>
          (case load_PY_LANGUAGE G of
             Inl e \<Rightarrow> file_handler f e st
           | Inr lang \<Rightarrow>
               (case ts_query E lang tree of
                  Inl e \<Rightarrow> file_handler f e st
                | Inr ms \<Rightarrow>
                    (case qa_units E f st (captures_of ms) of
                       (None, st') \<Rightarrow> (None, st')
                     | (Some e, st') \<Rightarrow> file_handler f e st'))))"

fun qa_files ::
  "('m, 'p, 'l, 't, 'fs) env \<Rightarrow> (string \<Rightarrow> 'l py_global option) \<Rightarrow> 'p \<Rightarrow> 'm run
     \<Rightarrow> code_file list \<Rightarrow> py_exc option \<times> 'm run" where
  "qa_files E G parser st [] = (None, st)"
| "qa_files E G parser st (f # fs) =
     (case qa_file_step E G parser st f of
        (None, st') \<Rightarrow> qa_files E G parser st' fs
      | (Some e, st') \<Rightarrow> (Some e, st'))"

text \<open>
  \<open>generate_qa_pairs\<close> in the namespace \<open>G\<close>, called with the model in state \<open>m\<close> and with
  \<open>out\<close> printed so far. The list it returns is the field \<open>qa_pairs\<close> of the result.
\<close>

definition generate_qa_pairs ::
  "('m, 'p, 'l, 't, 'fs) env \<Rightarrow> (string \<Rightarrow> 'l py_global option) \<Rightarrow> code_file list \<Rightarrow> 'p
     \<Rightarrow> 'm \<Rightarrow> string list \<Rightarrow> py_exc option \<times> 'm run" where
  "generate_qa_pairs E G code_files parser m out =
     qa_files E G parser \<lparr>qa_pairs = [], model_state = m, stdout = out\<rparr> code_files"

section \<open>\<open>save_qa_pairs\<close> and \<open>main\<close>\<close>

text \<open>
  \<open>mkdir\<close> is called before the \<open>try\<close>, so its exception leaves the function; an
  \<open>Exception\<close> of the write is caught and printed.
\<close>

definition save_qa_pairs ::
  "('m, 'p, 'l, 't, 'fs) env \<Rightarrow> qa_record list \<Rightarrow> string \<Rightarrow> 'fs \<Rightarrow> string list
     \<Rightarrow> py_exc option \<times> 'fs \<times> string list" where
  "save_qa_pairs E qas output_dir fs out =
     (case mkdir_exist_ok E fs output_dir of
        Inl e \<Rightarrow> (Some e, fs, out)
      | Inr fs1 \<Rightarrow>
          let output_file = path_join E output_dir ''qa_pairs.json''
          in (case to_json E fs1 output_file qas of
                (None, fs2) \<Rightarrow>
                  (None, fs2,
                   out @ [''QA pairs saved to [USER_HOME]/Documents/output_data/qa_pairs.json''])
              | (Some e, fs2) \<Rightarrow>
                  if is_Exception e
                  then (None, fs2,
                        out @ [''Failed to save QA pairs to '' @ output_file @ '': ''
                                 @ exc_str e])
                  else (Some e, fs2, out)))"

text \<open>The handler of \<open>main\<close> (lines 171 to 173): print, then raise again.\<close>

definition main_handler ::
  "py_exc \<Rightarrow> 'fs \<Rightarrow> string list \<Rightarrow> py_exc option \<times> 'fs \<times> string list" where
  "main_handler e fs out =
     (Some e, fs,
      if is_Exception e then out @ [''Error in main execution: '' @ exc_str e] else out)"

text \<open>
  \<open>main\<close> on the file system \<open>fs\<close>: the exception that leaves it, if any, the file system
  afterwards and the lines printed. \<open>generate_qa_pairs\<close> runs in the module's own
  namespace.
\<close>

definition main ::
  "('m, 'p, 'l, 't, 'fs) env \<Rightarrow> 'fs \<Rightarrow> py_exc option \<times> 'fs \<times> string list" where
  "main E fs =
     (let out = [''Starting QA pair generation...''] in
      case initialize_model E fs MODEL_PATH 2048 of
        Inl e \<Rightarrow> main_handler e fs out
      | Inr model \<Rightarrow>
          (case initialize_parser E of
             Inl e \<Rightarrow> main_handler e fs out
           | Inr parser \<Rightarrow>
               (case extract_code E fs REPO_PATH FILE_EXTENSION out of
                  (Inl e, out1) \<Rightarrow> main_handler e fs out1
                | (Inr code_files, out1) \<Rightarrow>
                    (case generate_qa_pairs E module_globals code_files parser model out1 of
                       (Some e, st) \<Rightarrow> main_handler e fs (stdout st)
                     | (None, st) \<Rightarrow>
                         (case save_qa_pairs E (qa_pairs st) OUTPUT_PATH fs (stdout st) of
                            (Some e, fs', out2) \<Rightarrow> main_handler e fs' out2
                          | (None, fs', out2) \<Rightarrow>
                              (None, fs', out2 @ [''QA pair generation completed.'']))))))"

section \<open>A concrete file system and concrete libraries\<close>

text \<open>
  For running the program on concrete inputs: a file system as an association list from
  POSIX paths to nodes (the first entry for a path is the current one), with
  \<open>Path.mkdir(exist_ok=True)\<close> as the Python documentation describes it: no error when the
  path is a directory already, \<open>FileExistsError\<close> when it exists and is not a directory,
  \<open>FileNotFoundError\<close> when the parent is missing (\<open>parents\<close> is not set).
\<close>

datatype fs_node = Dir | TextFile string | Dataset "qa_record list"

type_synonym posix_fs = "(string \<times> fs_node) list"

definition posix_parent :: "string \<Rightarrow> string" where
  "posix_parent p = rev (drop 1 (dropWhile (\<lambda>c. c \<noteq> CHR ''/'') (rev p)))"

definition posix_name :: "string \<Rightarrow> string" where
  "posix_name p = rev (takeWhile (\<lambda>c. c \<noteq> CHR ''/'') (rev p))"

definition posix_join :: "string \<Rightarrow> string \<Rightarrow> string" where
  "posix_join a b = (if a = [] then b else if last a = CHR ''/'' then a @ b else a @ ''/'' @ b)"

definition posix_mkdir :: "posix_fs \<Rightarrow> string \<Rightarrow> py_exc + posix_fs" where
  "posix_mkdir fs p =
     (case map_of fs p of
        Some Dir \<Rightarrow> Inr fs
      | Some (TextFile v) \<Rightarrow> Inl (FileExistsError (''[Errno 17] File exists: '' @ p))
      | Some (Dataset v) \<Rightarrow> Inl (FileExistsError (''[Errno 17] File exists: '' @ p))
      | None \<Rightarrow>
          (case map_of fs (posix_parent p) of
             Some Dir \<Rightarrow> Inr ((p, Dir) # fs)
           | Some (TextFile v) \<Rightarrow> Inl (NotADirectoryError (''[Errno 20] Not a directory: '' @ p))
           | Some (Dataset v) \<Rightarrow> Inl (NotADirectoryError (''[Errno 20] Not a directory: '' @ p))
           | None \<Rightarrow> Inl (FileNotFoundError (''[Errno 2] No such file or directory: '' @ p))))"

definition posix_rglob :: "posix_fs \<Rightarrow> string \<Rightarrow> string \<Rightarrow> string list" where
  "posix_rglob fs root ext =
     concat (map (\<lambda>(p, n). case n of
                     TextFile v \<Rightarrow>
                       if startswith p (root @ ''/'') \<and> startswith (rev p) (rev ext)
                       then [drop (Suc (length root)) p] else []
                   | Dir \<Rightarrow> []
                   | Dataset v \<Rightarrow> []) fs)"

definition posix_read :: "posix_fs \<Rightarrow> string \<Rightarrow> string \<Rightarrow> py_exc + string" where
  "posix_read fs root rel =
     (case map_of fs (posix_join root rel) of
        Some (TextFile v) \<Rightarrow> Inr v
      | Some Dir \<Rightarrow> Inl (OtherException ''[Errno 21] Is a directory'')
      | Some (Dataset v) \<Rightarrow> Inl (OtherException ''not a text file'')
      | None \<Rightarrow> Inl (FileNotFoundError ''[Errno 2] No such file or directory''))"

text \<open>
  Concrete libraries over that file system. The syntax tree is the list of matches of the
  query, given by \<open>prs\<close> for each file content; the state of the model is the number of
  calls made, and \<open>bk\<close> gives the reply to each call. The initialisation of the parser
  raises, as \<open>set_language\<close> does on line 44: it is handed what \<open>python_language()\<close>
  returns, which is not a \<open>Language\<close> object.
\<close>

definition demo_env ::
  "(string \<Rightarrow> py_exc + ts_match list) \<Rightarrow> (nat \<Rightarrow> string \<Rightarrow> py_exc + string)
     \<Rightarrow> (nat, unit, unit, ts_match list, posix_fs) env" where
  "demo_env prs bk =
     \<lparr>path_exists = (\<lambda>fs p. map_of fs p \<noteq> None),
      llama_load = (\<lambda>fs p n. Inr 0),
      ts_init = Inl (TypeError ''Argument to set_language must be a Language''),
      rglob = posix_rglob,
      read_text = posix_read,
      path_name = posix_name,
      ts_parse = (\<lambda>parser c. prs c),
      ts_query = (\<lambda>lang t. Inr t),
      backend = (\<lambda>m prompt. (bk m prompt, Suc m)),
      mkdir_exist_ok = posix_mkdir,
      path_join = posix_join,
      to_json = (\<lambda>fs p qas. (None, (p, Dataset qas) # fs))\<rparr>"

text \<open>
  The scenario of one file holding \<open>def add(a, b): return a + b\<close>. The query matches the
  whole definition (bytes 0 to 27); its \<open>name\<close> child is the identifier \<open>add\<close>
  (bytes 4 to 7).
\<close>

definition add_source :: string where
  "add_source = ''def add(a, b): return a + b''"

definition add_match :: ts_match where
  "add_match =
     \<lparr>func_def = \<lparr>node_text = add_source, start_byte = 0, end_byte = 27\<rparr>,
      func_name_node = \<lparr>node_text = ''add'', start_byte = 4, end_byte = 7\<rparr>\<rparr>"

definition add_file :: code_file where
  "add_file = \<lparr>path = ''add.py'', content = add_source, repo = ''flask''\<rparr>"

definition add_reply :: string where
  "add_reply = ''Question: What does it do?\<newline>Answer: It adds two numbers.\<newline>Question: What are its inputs?\<newline>Answer: Two numbers.''"

text \<open>
  A file with two functions, \<open>f\<close> (bytes 0 to 13, name at 4) and \<open>g\<close> (bytes 14 to 27,
  name at 18), and a file that is not Python at all.
\<close>

definition two_source :: string where
  "two_source = ''def f(): pass\<newline>def g(): pass''"

definition two_matches :: "ts_match list" where
  "two_matches =
     [\<lparr>func_def = \<lparr>node_text = ''def f(): pass'', start_byte = 0, end_byte = 13\<rparr>,
       func_name_node = \<lparr>node_text = ''f'', start_byte = 4, end_byte = 5\<rparr>\<rparr>,
      \<lparr>func_def = \<lparr>node_text = ''def g(): pass'', start_byte = 14, end_byte = 27\<rparr>,
       func_name_node = \<lparr>node_text = ''g'', start_byte = 18, end_byte = 19\<rparr>\<rparr>]"

definition two_file :: code_file where
  "two_file = \<lparr>path = ''two.py'', content = two_source, repo = ''flask''\<rparr>"

definition bad_file :: code_file where
  "bad_file = \<lparr>path = ''bad.py'', content = ''(binary)'', repo = ''flask''\<rparr>"

text \<open>
  A parser that knows these sources and raises on every other content, a backend that
  always gives \<open>add_reply\<close>, and one that raises on the first call made to it.
\<close>

definition demo_parse :: "string \<Rightarrow> py_exc + ts_match list" where
  "demo_parse c =
     (if c = add_source then Inr [add_match]
      else if c = two_source then Inr two_matches
      else Inl (ValueError ''no tree''))"

definition add_env :: "(nat, unit, unit, ts_match list, posix_fs) env" where
  "add_env = demo_env demo_parse (\<lambda>m prompt. Inr add_reply)"

definition flaky_env :: "(nat, unit, unit, ts_match list, posix_fs) env" where
  "flaky_env = demo_env demo_parse
     (\<lambda>m prompt. if m = 0 then Inl (OtherException ''backend unavailable'')
                  else Inr add_reply)"

definition add_fs :: posix_fs where
  "add_fs =
     [(MODEL_PATH, TextFile []),
      (''C:/Users/cym/Documents'', Dir),
      (REPO_PATH, Dir),
      (REPO_PATH @ ''/add.py'', TextFile add_source)]"

section \<open>Lemmas on the string operations and on the parser\<close>

lemma startswith_append: "startswith (p @ s) p"
  by (induction p) auto

lemma startswith_iff: "startswith s p \<longleftrightarrow> (\<exists>t. s = p @ t)"
  by (induction s p rule: startswith.induct) auto

lemma py_replace_marker:
  "p \<noteq> [] \<Longrightarrow> py_replace p new (p @ s) = new @ py_replace p new s"
  by (cases p) (auto simp: startswith_append)

lemma py_replace_skip:
  "p \<notin> set a \<Longrightarrow> py_replace (p # ps) new (a @ s) = a @ py_replace (p # ps) new s"
  by (induction a) auto

lemma py_replace_free:
  "p \<notin> set a \<Longrightarrow> py_replace (p # ps) new a = a"
  by (induction a) auto

lemma py_replace_segments:
  "\<forall>a\<in>set segs. p \<notin> set a \<Longrightarrow>
     py_replace (p # ps) [] (concat (map (\<lambda>a. (p # ps) @ a) segs)) = concat segs"
proof (induction segs)
  case Nil
  show ?case by simp
next
  case (Cons a segs)
  have "py_replace (p # ps) [] (concat (map (\<lambda>a. (p # ps) @ a) (a # segs)))
        = py_replace (p # ps) [] ((p # ps) @ (a @ concat (map (\<lambda>a. (p # ps) @ a) segs)))"
    by simp
  also have "\<dots> = py_replace (p # ps) [] (a @ concat (map (\<lambda>a. (p # ps) @ a) segs))"
    using py_replace_marker [of "p # ps" "[]"] by simp
  also have "\<dots> = a @ py_replace (p # ps) [] (concat (map (\<lambda>a. (p # ps) @ a) segs))"
    using Cons.prems by (simp add: py_replace_skip)
  finally show ?case using Cons by simp
qed

lemma py_strip_space:
  assumes "\<forall>c\<in>set w. py_isspace c"
  shows "py_strip w = []"
proof -
  have h: "dropWhile py_isspace w = []" using assms by (induction w) auto
  show ?thesis by (simp only: py_strip_def h rev.simps dropWhile.simps)
qed

lemma py_split_single: "sep \<notin> set a \<Longrightarrow> py_split sep a = [a]"
  by (induction a) auto

lemma py_split_append: "sep \<notin> set a \<Longrightarrow> py_split sep (a @ sep # b) = a # py_split sep b"
  by (induction a) auto

lemma qa_line_acc:
  "qa_line f n c (q, acc @ xs) l =
     (fst (qa_line f n c (q, xs) l), acc @ snd (qa_line f n c (q, xs) l))"
  by (simp add: qa_line_def split: option.splits)

lemma qa_lines_acc:
  "foldl (qa_line f n c) (q, acc @ xs) ls =
     (fst (foldl (qa_line f n c) (q, xs) ls), acc @ snd (foldl (qa_line f n c) (q, xs) ls))"
proof (induction ls arbitrary: q xs)
  case Nil
  show ?case by simp
next
  case (Cons l ls)
  obtain q' ys where st: "qa_line f n c (q, xs) l = (q', ys)" by (cases "qa_line f n c (q, xs) l")
  then have "qa_line f n c (q, acc @ xs) l = (q', acc @ ys)"
    using qa_line_acc [of f n c q acc xs l] by simp
  with st Cons.IH [of q' ys] show ?case by simp
qed

lemma parse_response_acc:
  "parse_response f n c response acc = acc @ parse_response f n c response []"
  using qa_lines_acc [of f n c None acc "[]"] by (simp add: parse_response_def)

lemma qa_line_question:
  "qa_line f n c (q, acc) (''Question:'' @ body)
     = (Some (py_strip (py_replace ''Question:'' [] body)), acc)"
proof -
  have "py_replace ''Question:'' [] (''Question:'' @ body) = py_replace ''Question:'' [] body"
    using py_replace_marker [of "''Question:''" "[]" body] by simp
  moreover have "startswith (''Question:'' @ body) ''Question:''"
    by (rule startswith_append)
  ultimately show ?thesis by (simp add: qa_line_def)
qed

lemma qa_line_answer:
  "qa_line f n c (Some q, acc) (''Answer:'' @ body)
     = (if q \<noteq> []
        then (None, acc @ [\<lparr>question = q,
                answer = py_strip (py_replace ''Answer:'' [] body),
                code_snippet = c,
                reasoning = ''Generated from function '' @ n @ '' in '' @ path f
                              @ '' using StarCoder GGUF.'',
                qa_file = path f, qa_repo = repo f\<rparr>])
        else (Some q, acc))"
proof -
  have "py_replace ''Answer:'' [] (''Answer:'' @ body) = py_replace ''Answer:'' [] body"
    using py_replace_marker [of "''Answer:''" "[]" body] by simp
  moreover have "startswith (''Answer:'' @ body) ''Answer:''"
    by (rule startswith_append)
  moreover have "\<not> startswith (''Answer:'' @ body) ''Question:''"
    by simp
  ultimately show ?thesis by (simp add: qa_line_def)
qed

lemma qa_line_other:
  "c0 \<noteq> CHR ''Q'' \<Longrightarrow> c0 \<noteq> CHR ''A'' \<Longrightarrow> qa_line f n c st (c0 # rest) = st"
  by (cases st) (simp add: qa_line_def)

lemma isspace_not_Q: "py_isspace c \<Longrightarrow> c \<noteq> CHR ''Q'' \<and> c \<noteq> CHR ''A''"
  by (auto simp: py_isspace_def)

lemma py_split_two:
  "sep \<notin> set l1 \<Longrightarrow> sep \<notin> set l2 \<Longrightarrow> py_split sep (l1 @ sep # l2) = [l1, l2]"
  by (simp add: py_split_append py_split_single)

lemma py_split_three:
  "sep \<notin> set l1 \<Longrightarrow> sep \<notin> set l2 \<Longrightarrow> sep \<notin> set l3 \<Longrightarrow>
     py_split sep (l1 @ sep # l2 @ sep # l3) = [l1, l2, l3]"
  by (simp add: py_split_append py_split_single)

lemma isspace_replace:
  assumes "\<forall>ch\<in>set w. py_isspace ch"
  shows "py_strip (py_replace ''Question:'' [] w) = []"
    and "py_strip (py_replace ''Answer:'' [] w) = []"
proof -
  have "CHR ''Q'' \<notin> set w" "CHR ''A'' \<notin> set w"
    using assms isspace_not_Q by blast+
  then have "py_replace ''Question:'' [] w = w" "py_replace ''Answer:'' [] w = w"
    by (simp_all add: py_replace_free)
  then show "py_strip (py_replace ''Question:'' [] w) = []"
    and "py_strip (py_replace ''Answer:'' [] w) = []"
    using assms by (simp_all add: py_strip_space)
qed

section \<open>Lemmas on the loops over units and files\<close>

lemma qa_files_append:
  "qa_files E G parser st (xs @ ys) =
     (case qa_files E G parser st xs of
        (None, st') \<Rightarrow> qa_files E G parser st' ys
      | (Some e, st') \<Rightarrow> (Some e, st'))"
  by (induction xs arbitrary: st) (auto split: prod.splits option.splits)

lemma qa_units_append:
  "qa_units E f st (xs @ ys) =
     (case qa_units E f st xs of
        (None, st') \<Rightarrow> qa_units E f st' ys
      | (Some e, st') \<Rightarrow> (Some e, st'))"
  by (induction xs arbitrary: st) (auto split: prod.splits option.splits)

lemma extract_files_append:
  "extract_files E fs root st (xs @ ys) =
     (case extract_files E fs root st xs of
        (None, st') \<Rightarrow> extract_files E fs root st' ys
      | (Some e, st') \<Rightarrow> (Some e, st'))"
  by (induction xs arbitrary: st) (auto split: prod.splits option.splits)

lemma qa_file_step_parse_error:
  "ts_parse E parser (content f) = Inl e \<Longrightarrow> is_Exception e \<Longrightarrow>
     qa_file_step E G parser st f =
       (None, st\<lparr>stdout := stdout st @
                 [''Error processing file '' @ path f @ '': '' @ exc_str e]\<rparr>)"
  by (simp add: qa_file_step_def file_handler_def)

lemma qa_unit_backend_error:
  "backend E (model_state st)
       (make_prompt (py_slice (content f) (start_byte node) (end_byte node))) = (Inl e, m') \<Longrightarrow>
   is_Exception e \<Longrightarrow>
     qa_unit E f st (node, nm) =
       (None, st\<lparr>model_state := m',
                 stdout := stdout st @
                   [''Failed to generate QA for '' @ path f @ '', function ''
                      @ node_text node @ '': '' @ exc_str e]\<rparr>)"
  by (simp add: qa_unit_def Let_def)

lemma extract_file_read_error:
  "read_text E fs root rel = Inl e \<Longrightarrow> is_Exception e \<Longrightarrow>
     extract_file E fs root (cfs, out) rel =
       (None, cfs, out @ [''Failed to read file '' @ rel @ '': '' @ exc_str e])"
  by (simp add: extract_file_def)

lemma qa_unit_no_raise:
  assumes "\<forall>m pr e m'. backend E m pr = (Inl e, m') \<longrightarrow> is_Exception e"
  shows "fst (qa_unit E f st cap) = None"
proof (cases cap)
  case (Pair node nm)
  obtain r m' where b: "backend E (model_state st)
       (make_prompt (py_slice (content f) (start_byte node) (end_byte node))) = (r, m')"
    by (cases "backend E (model_state st)
       (make_prompt (py_slice (content f) (start_byte node) (end_byte node)))")
  show ?thesis
  proof (cases r)
    case (Inl e)
    with b assms have "is_Exception e" by blast
    with b Inl Pair show ?thesis by (simp add: qa_unit_def Let_def)
  next
    case (Inr response)
    with b Pair show ?thesis by (simp add: qa_unit_def Let_def)
  qed
qed

lemma qa_units_no_raise:
  assumes "\<forall>m pr e m'. backend E m pr = (Inl e, m') \<longrightarrow> is_Exception e"
  shows "fst (qa_units E f st caps) = None"
proof (induction caps arbitrary: st)
  case Nil
  show ?case by simp
next
  case (Cons cap caps)
  obtain st' where "qa_unit E f st cap = (None, st')"
    using qa_unit_no_raise [OF assms, of f st cap] by (cases "qa_unit E f st cap") auto
  then show ?case using Cons.IH [of st'] by simp
qed

lemma qa_file_step_no_raise:
  assumes "\<forall>p c e. ts_parse E p c = Inl e \<longrightarrow> is_Exception e"
    and "\<forall>l t e. ts_query E l t = Inl e \<longrightarrow> is_Exception e"
    and "\<forall>m pr e m'. backend E m pr = (Inl e, m') \<longrightarrow> is_Exception e"
  shows "fst (qa_file_step E G parser st f) = None"
proof -
  have lang: "\<And>e. load_PY_LANGUAGE G = Inl e \<Longrightarrow> is_Exception e"
    by (auto simp: load_PY_LANGUAGE_def split: option.splits py_global.splits)
  have units: "\<And>ms. \<exists>st'. qa_units E f st (captures_of ms) = (None, st')"
  proof -
    fix ms
    show "\<exists>st'. qa_units E f st (captures_of ms) = (None, st')"
      using qa_units_no_raise [OF assms(3), of f st "captures_of ms"]
      by (cases "qa_units E f st (captures_of ms)") auto
  qed
  show ?thesis
  proof (cases "ts_parse E parser (content f)")
    case (Inl e)
    with assms(1) have "is_Exception e" by blast
    with Inl show ?thesis by (simp add: qa_file_step_def file_handler_def)
  next
    case tree: (Inr tree)
    show ?thesis
    proof (cases "load_PY_LANGUAGE G")
      case (Inl e)
      with lang have "is_Exception e" by blast
      with Inl tree show ?thesis by (simp add: qa_file_step_def file_handler_def)
    next
      case lng: (Inr l)
      show ?thesis
      proof (cases "ts_query E l tree")
        case (Inl e)
        with assms(2) have "is_Exception e" by blast
        with Inl tree lng show ?thesis by (simp add: qa_file_step_def file_handler_def)
      next
        case (Inr ms)
        obtain st' where "qa_units E f st (captures_of ms) = (None, st')"
          using units by blast
        with Inr tree lng show ?thesis by (simp add: qa_file_step_def)
      qed
    qed
  qed
qed

lemma qa_files_no_raise:
  assumes "\<forall>p c e. ts_parse E p c = Inl e \<longrightarrow> is_Exception e"
    and "\<forall>l t e. ts_query E l t = Inl e \<longrightarrow> is_Exception e"
    and "\<forall>m pr e m'. backend E m pr = (Inl e, m') \<longrightarrow> is_Exception e"
  shows "fst (qa_files E G parser st fs) = None"
proof (induction fs arbitrary: st)
  case Nil
  show ?case by simp
next
  case (Cons f fs)
  obtain st' where "qa_file_step E G parser st f = (None, st')"
    using qa_file_step_no_raise [OF assms, of G parser st f]
    by (cases "qa_file_step E G parser st f") auto
  then show ?case using Cons.IH [of st'] by simp
qed

text \<open>Records once appended to \<open>qa_pairs\<close> stay there, in their place.\<close>

lemma qa_unit_keeps:
  "\<exists>rs. qa_pairs (snd (qa_unit E f st cap)) = qa_pairs st @ rs"
proof (cases cap)
  case (Pair node nm)
  obtain r m' where b: "backend E (model_state st)
       (make_prompt (py_slice (content f) (start_byte node) (end_byte node))) = (r, m')"
    by (cases "backend E (model_state st)
       (make_prompt (py_slice (content f) (start_byte node) (end_byte node)))")
  show ?thesis
  proof (cases r)
    case (Inl e)
    with b Pair show ?thesis by (simp add: qa_unit_def Let_def)
  next
    case (Inr response)
    with b Pair show ?thesis
      using parse_response_acc [of f "node_text node"
          "py_slice (content f) (start_byte node) (end_byte node)" response "qa_pairs st"]
      by (simp add: qa_unit_def Let_def)
  qed
qed

lemma qa_units_keeps:
  "\<exists>rs. qa_pairs (snd (qa_units E f st caps)) = qa_pairs st @ rs"
proof (induction caps arbitrary: st)
  case Nil
  show ?case by simp
next
  case (Cons cap caps)
  obtain r st' where u: "qa_unit E f st cap = (r, st')" by (cases "qa_unit E f st cap")
  obtain rs where rs: "qa_pairs st' = qa_pairs st @ rs"
    using qa_unit_keeps [of E f st cap] u by auto
  show ?case
  proof (cases r)
    case None
    obtain rs' where "qa_pairs (snd (qa_units E f st' caps)) = qa_pairs st' @ rs'"
      using Cons.IH [of st'] by blast
    with u None rs show ?thesis by simp
  next
    case (Some e)
    with u rs show ?thesis by simp
  qed
qed

lemma file_handler_keeps: "qa_pairs (snd (file_handler f e st)) = qa_pairs st"
  by (simp add: file_handler_def)

lemma qa_file_step_keeps:
  "\<exists>rs. qa_pairs (snd (qa_file_step E G parser st f)) = qa_pairs st @ rs"
proof (cases "ts_parse E parser (content f)")
  case (Inl e)
  then show ?thesis by (simp add: qa_file_step_def file_handler_keeps)
next
  case tree: (Inr tree)
  show ?thesis
  proof (cases "load_PY_LANGUAGE G")
    case (Inl e)
    with tree show ?thesis by (simp add: qa_file_step_def file_handler_keeps)
  next
    case lng: (Inr l)
    show ?thesis
    proof (cases "ts_query E l tree")
      case (Inl e)
      with tree lng show ?thesis by (simp add: qa_file_step_def file_handler_keeps)
    next
      case (Inr ms)
      obtain r st' where u: "qa_units E f st (captures_of ms) = (r, st')"
        by (cases "qa_units E f st (captures_of ms)")
      obtain rs where rs: "qa_pairs st' = qa_pairs st @ rs"
        using qa_units_keeps [of E f st "captures_of ms"] u by auto
      show ?thesis
      proof (cases r)
        case None
        with u rs Inr tree lng show ?thesis by (simp add: qa_file_step_def)
      next
        case (Some e)
        with u rs Inr tree lng show ?thesis by (simp add: qa_file_step_def file_handler_keeps)
      qed
    qed
  qed
qed

lemma qa_files_keeps:
  "\<exists>rs. qa_pairs (snd (qa_files E G parser st fs)) = qa_pairs st @ rs"
proof (induction fs arbitrary: st)
  case Nil
  show ?case by simp
next
  case (Cons f fs)
  obtain r st' where u: "qa_file_step E G parser st f = (r, st')"
    by (cases "qa_file_step E G parser st f")
  obtain rs where rs: "qa_pairs st' = qa_pairs st @ rs"
    using qa_file_step_keeps [of E G parser st f] u by auto
  show ?case
  proof (cases r)
    case None
    obtain rs' where "qa_pairs (snd (qa_files E G parser st' fs)) = qa_pairs st' @ rs'"
      using Cons.IH [of st'] by blast
    with u None rs show ?thesis by simp
  next
    case (Some e)
    with u rs show ?thesis by simp
  qed
qed

section \<open>The claims on the response parser\<close>

text \<open>
  Claim C5. The response \<open>Question: A\<close>, \<open>Question: B\<close>, \<open>Answer: X\<close> (three lines) gives
  exactly one record, with question \<open>B\<close> and answer \<open>X\<close>. In general, for three such lines
  with any bodies free of line feeds, the record emitted carries the body of the second
  question line and nothing of the first: the pending question (there is one variable
  \<open>current_q\<close> for it) is overwritten.
\<close>

theorem pending_question_overwritten:
  "parse_response f n c ''Question: A\<newline>Question: B\<newline>Answer: X'' []
     = [\<lparr>question = ''B'', answer = ''X'', code_snippet = c,
         reasoning = ''Generated from function '' @ n @ '' in '' @ path f
                       @ '' using StarCoder GGUF.'',
         qa_file = path f, qa_repo = repo f\<rparr>]
   \<and> (CHR ''\<newline>'' \<notin> set a \<and> CHR ''\<newline>'' \<notin> set b \<and> CHR ''\<newline>'' \<notin> set x
        \<and> py_strip (py_replace ''Question:'' [] b) \<noteq> [] \<longrightarrow>
      parse_response f n c
          ((''Question:'' @ a) @ CHR ''\<newline>'' # (''Question:'' @ b) @ CHR ''\<newline>'' # (''Answer:'' @ x)) acc
        = acc @ [\<lparr>question = py_strip (py_replace ''Question:'' [] b),
                  answer = py_strip (py_replace ''Answer:'' [] x),
                  code_snippet = c,
                  reasoning = ''Generated from function '' @ n @ '' in '' @ path f
                                @ '' using StarCoder GGUF.'',
                  qa_file = path f, qa_repo = repo f\<rparr>])"
proof (intro conjI impI)
  show "parse_response f n c ''Question: A\<newline>Question: B\<newline>Answer: X'' []
     = [\<lparr>question = ''B'', answer = ''X'', code_snippet = c,
         reasoning = ''Generated from function '' @ n @ '' in '' @ path f
                       @ '' using StarCoder GGUF.'',
         qa_file = path f, qa_repo = repo f\<rparr>]"
    by (simp add: parse_response_def qa_line_def py_strip_def py_isspace_def)
next
  assume h: "CHR ''\<newline>'' \<notin> set a \<and> CHR ''\<newline>'' \<notin> set b \<and> CHR ''\<newline>'' \<notin> set x
        \<and> py_strip (py_replace ''Question:'' [] b) \<noteq> []"
  have "py_split (CHR ''\<newline>'')
          ((''Question:'' @ a) @ CHR ''\<newline>'' # (''Question:'' @ b) @ CHR ''\<newline>'' # (''Answer:'' @ x))
        = [''Question:'' @ a, ''Question:'' @ b, ''Answer:'' @ x]"
    by (rule py_split_three) (use h in simp_all)
  then show "parse_response f n c
          ((''Question:'' @ a) @ CHR ''\<newline>'' # (''Question:'' @ b) @ CHR ''\<newline>'' # (''Answer:'' @ x)) acc
        = acc @ [\<lparr>question = py_strip (py_replace ''Question:'' [] b),
                  answer = py_strip (py_replace ''Answer:'' [] x),
                  code_snippet = c,
                  reasoning = ''Generated from function '' @ n @ '' in '' @ path f
                                @ '' using StarCoder GGUF.'',
                  qa_file = path f, qa_repo = repo f\<rparr>]"
    using h by (simp only: parse_response_def foldl.simps qa_line_question qa_line_answer
                  snd_conv if_True simp_thms)
qed

theorem pending_question_overwritten_witness:
  "parse_response add_file ''add'' ''add''
       ''Question: first\<newline>Question: second\<newline>Answer: reply'' [] =
     [\<lparr>question = ''second'', answer = ''reply'', code_snippet = ''add'',
       reasoning = ''Generated from function add in add.py using StarCoder GGUF.'',
       qa_file = ''add.py'', qa_repo = ''flask''\<rparr>]"
  using pending_question_overwritten [of add_file "''add''" "''add''" "'' first''" "'' second''" "'' reply''" "[]"]
  by (simp add: add_file_def py_strip_def py_isspace_def)

text \<open>
  Claim C9. The parser is deterministic: the records a run appends are a function of the
  response (and of the unit it belongs to) alone. They do not depend on the records
  accumulated before, and no pending question is carried from one response to the next,
  so two runs on the same response append the same sequence.
\<close>

theorem parser_deterministic:
  "parse_response f n c response acc = acc @ parse_response f n c response []
   \<and> drop (length acc1) (parse_response f n c response acc1)
       = drop (length acc2) (parse_response f n c response acc2)"
proof
  show "parse_response f n c response acc = acc @ parse_response f n c response []"
    by (rule parse_response_acc)
next
  have "drop (length acc1) (parse_response f n c response acc1) = parse_response f n c response []"
    using parse_response_acc [of f n c response acc1] by simp
  moreover have "drop (length acc2) (parse_response f n c response acc2) = parse_response f n c response []"
    using parse_response_acc [of f n c response acc2] by simp
  ultimately show "drop (length acc1) (parse_response f n c response acc1)
       = drop (length acc2) (parse_response f n c response acc2)" by simp
qed

text \<open>
  Claim C3, amended. A line is recognised as a question marker exactly when the line
  itself, not stripped, begins with the text \<open>Question:\<close> in this very case, and as an
  answer marker when it begins with \<open>Answer:\<close>; every other line leaves the state as it
  is, in particular a line with white space before the marker and a line with the marker
  in lower case. Only the body taken from a recognised line is stripped of white space at
  both ends.
\<close>

theorem marker_recognition_exact:
  "qa_line f n c (q, acc) (''Question:'' @ body)
       = (Some (py_strip (py_replace ''Question:'' [] body)), acc)
   \<and> qa_line f n c (Some q', acc) (''Answer:'' @ body)
       = (if q' \<noteq> []
          then (None, acc @ [\<lparr>question = q',
                  answer = py_strip (py_replace ''Answer:'' [] body),
                  code_snippet = c,
                  reasoning = ''Generated from function '' @ n @ '' in '' @ path f
                                @ '' using StarCoder GGUF.'',
                  qa_file = path f, qa_repo = repo f\<rparr>])
          else (Some q', acc))
   \<and> ((\<nexists>b. line = ''Question:'' @ b) \<and> (\<nexists>b. line = ''Answer:'' @ b)
        \<longrightarrow> qa_line f n c st line = st)
   \<and> (py_isspace c0 \<longrightarrow> qa_line f n c st (c0 # rest) = st)
   \<and> qa_line f n c st (''question:'' @ rest) = st
   \<and> qa_line f n c st (''answer:'' @ rest) = st"
proof (intro conjI impI)
  show "qa_line f n c (q, acc) (''Question:'' @ body)
       = (Some (py_strip (py_replace ''Question:'' [] body)), acc)"
    by (rule qa_line_question)
next
  show "qa_line f n c (Some q', acc) (''Answer:'' @ body)
       = (if q' \<noteq> []
          then (None, acc @ [\<lparr>question = q',
                  answer = py_strip (py_replace ''Answer:'' [] body),
                  code_snippet = c,
                  reasoning = ''Generated from function '' @ n @ '' in '' @ path f
                                @ '' using StarCoder GGUF.'',
                  qa_file = path f, qa_repo = repo f\<rparr>])
          else (Some q', acc))"
    by (rule qa_line_answer)
next
  assume h: "(\<nexists>b. line = ''Question:'' @ b) \<and> (\<nexists>b. line = ''Answer:'' @ b)"
  then have "\<not> startswith line ''Question:''" "\<not> startswith line ''Answer:''"
    by (simp_all only: startswith_iff not_False_eq_True)
  then show "qa_line f n c st line = st"
    by (cases st) (simp add: qa_line_def)
next
  assume "py_isspace c0"
  then have "c0 \<noteq> CHR ''Q'' \<and> c0 \<noteq> CHR ''A''" by (rule isspace_not_Q)
  then show "qa_line f n c st (c0 # rest) = st" by (simp add: qa_line_other)
next
  show "qa_line f n c st (''question:'' @ rest) = st"
    using qa_line_other [of "CHR ''q''"] by simp
next
  show "qa_line f n c st (''answer:'' @ rest) = st"
    using qa_line_other [of "CHR ''a''"] by simp
qed

text \<open>
  The amended statement at concrete lines: white space before the marker and another
  case are ignored, white space after the body is stripped.
\<close>

theorem marker_recognition_exact_witness:
  "py_isspace (CHR '' '')
   \<and> qa_line add_file ''add'' ''add'' (Some ''old'', []) ''  Question: A'' = (Some ''old'', [])
   \<and> (\<nexists>b. ''QUESTION: A'' = ''Question:'' @ b) \<and> (\<nexists>b. ''QUESTION: A'' = ''Answer:'' @ b)
   \<and> qa_line add_file ''add'' ''add'' (Some ''old'', []) ''QUESTION: A'' = (Some ''old'', [])
   \<and> qa_line add_file ''add'' ''add'' (Some ''old'', []) ''Question: A  '' = (Some ''A'', [])"
proof -
  have sp: "py_isspace (CHR '' '')" by (simp add: py_isspace_def)
  have nq: "(\<nexists>b. ''QUESTION: A'' = ''Question:'' @ b) \<and> (\<nexists>b. ''QUESTION: A'' = ''Answer:'' @ b)"
    by simp
  have str: "py_strip (py_replace ''Question:'' [] '' A  '') = ''A''"
    by (simp add: py_strip_def py_isspace_def)
  show ?thesis
    using sp nq str
      marker_recognition_exact [where f = add_file and n = "''add''" and c = "''add''"
        and q = "Some ''old''" and acc = "[]" and body = "'' A  ''" and line = "''QUESTION: A''"
        and st = "(Some ''old'', [])" and ?c0.0 = "CHR '' ''" and rest = "'' Question: A''"]
    by simp
qed

text \<open>
  Claim C3 as stated fails: the line \<open>  question: A\<close> changes nothing, and an answer
  line after it emits no record.
\<close>

theorem marker_recognition_counterexample:
  "qa_line add_file ''add'' ''add'' (None, []) ''  question: A'' = (None, [])
   \<and> parse_response add_file ''add'' ''add'' ''  question: A\<newline>Answer: X'' [] = []"
  by (simp add: parse_response_def qa_line_def)

text \<open>
  Claim C4, amended. A question line whose body is empty or white space sets
  \<open>current_q\<close> to the empty string, which the test \<open>if current_q:\<close> treats as no pending
  question: the answer line after it emits no record. An answer line whose body is empty
  or white space, after a question with a body that is not empty, does emit a record,
  with the empty string as its answer.
\<close>

theorem empty_bodies:
  "((\<forall>ch\<in>set w. py_isspace ch) \<and> CHR ''\<newline>'' \<notin> set w \<and> CHR ''\<newline>'' \<notin> set x \<longrightarrow>
      parse_response f n c ((''Question:'' @ w) @ CHR ''\<newline>'' # (''Answer:'' @ x)) acc = acc)
   \<and> ((\<forall>ch\<in>set w. py_isspace ch) \<and> CHR ''\<newline>'' \<notin> set w \<and> CHR ''\<newline>'' \<notin> set b
        \<and> py_strip (py_replace ''Question:'' [] b) \<noteq> [] \<longrightarrow>
      parse_response f n c ((''Question:'' @ b) @ CHR ''\<newline>'' # (''Answer:'' @ w)) acc
        = acc @ [\<lparr>question = py_strip (py_replace ''Question:'' [] b),
                  answer = [],
                  code_snippet = c,
                  reasoning = ''Generated from function '' @ n @ '' in '' @ path f
                                @ '' using StarCoder GGUF.'',
                  qa_file = path f, qa_repo = repo f\<rparr>])"
proof (intro conjI impI)
  assume h: "(\<forall>ch\<in>set w. py_isspace ch) \<and> CHR ''\<newline>'' \<notin> set w \<and> CHR ''\<newline>'' \<notin> set x"
  have sp: "py_split (CHR ''\<newline>'') ((''Question:'' @ w) @ CHR ''\<newline>'' # (''Answer:'' @ x))
              = [''Question:'' @ w, ''Answer:'' @ x]"
    by (rule py_split_two) (use h in simp_all)
  have e: "py_strip (py_replace ''Question:'' [] w) = []"
    using h by (simp add: isspace_replace)
  show "parse_response f n c ((''Question:'' @ w) @ CHR ''\<newline>'' # (''Answer:'' @ x)) acc = acc"
    by (simp only: parse_response_def sp foldl.simps qa_line_question qa_line_answer e
          snd_conv simp_thms if_False)
next
  assume h: "(\<forall>ch\<in>set w. py_isspace ch) \<and> CHR ''\<newline>'' \<notin> set w \<and> CHR ''\<newline>'' \<notin> set b
        \<and> py_strip (py_replace ''Question:'' [] b) \<noteq> []"
  have sp: "py_split (CHR ''\<newline>'') ((''Question:'' @ b) @ CHR ''\<newline>'' # (''Answer:'' @ w))
              = [''Question:'' @ b, ''Answer:'' @ w]"
    by (rule py_split_two) (use h in simp_all)
  have e: "py_strip (py_replace ''Answer:'' [] w) = []"
    using h by (simp add: isspace_replace)
  have ne: "py_strip (py_replace ''Question:'' [] b) \<noteq> []" using h by simp
  show "parse_response f n c ((''Question:'' @ b) @ CHR ''\<newline>'' # (''Answer:'' @ w)) acc
        = acc @ [\<lparr>question = py_strip (py_replace ''Question:'' [] b),
                  answer = [],
                  code_snippet = c,
                  reasoning = ''Generated from function '' @ n @ '' in '' @ path f
                                @ '' using StarCoder GGUF.'',
                  qa_file = path f, qa_repo = repo f\<rparr>]"
    by (simp only: parse_response_def sp foldl.simps qa_line_question qa_line_answer e ne
          snd_conv simp_thms if_True)
qed

text \<open>The amended statement at concrete responses.\<close>

theorem empty_bodies_witness:
  "parse_response add_file ''add'' ''add'' ''Question:  \<newline>Answer: X'' [] = []
   \<and> parse_response add_file ''add'' ''add'' ''Question: A\<newline>Answer:  '' []
       = [\<lparr>question = ''A'', answer = [], code_snippet = ''add'',
           reasoning = ''Generated from function add in add.py using StarCoder GGUF.'',
           qa_file = ''add.py'', qa_repo = ''flask''\<rparr>]"
proof -
  have sp: "\<forall>ch\<in>set ''  ''. py_isspace ch" by (simp add: py_isspace_def)
  have str: "py_strip (py_replace ''Question:'' [] '' A'') = ''A''"
    by (simp add: py_strip_def py_isspace_def)
  show ?thesis
    using sp str empty_bodies [where w = "''  ''" and x = "'' X''" and f = add_file
        and n = "''add''" and c = "''add''" and acc = "[]" and b = "'' A''"]
    by (simp add: add_file_def)
qed

text \<open>
  Claim C4 as stated fails: a question line with a body of white space only, or with no
  body, followed by an answer line gives no record.
\<close>

theorem empty_question_body_counterexample:
  "parse_response add_file ''add'' ''add'' ''Question:   \<newline>Answer: X'' [] = []
   \<and> parse_response add_file ''add'' ''add'' ''Question:\<newline>Answer: X'' [] = []"
  by (simp add: parse_response_def qa_line_def py_strip_def py_isspace_def)

text \<open>
  Claim C10. The body of a marker line is the line with every occurrence of the marker
  deleted, not only the leading one, and then stripped: the line
  \<open>Question: what does Question: mean\<close> gives the question \<open>what does  mean\<close>. In general,
  for a line made of pieces that each follow a marker (and hold no \<open>Q\<close>, so that no other
  occurrence arises), the body is the pieces joined, stripped; the same for \<open>Answer:\<close>.
\<close>

theorem every_marker_occurrence_removed:
  "qa_line f n c (q, acc) ''Question: what does Question: mean''
      = (Some ''what does  mean'', acc)
   \<and> ((\<forall>a\<in>set (s # segs). CHR ''Q'' \<notin> set a) \<longrightarrow>
        qa_line f n c (q, acc) (concat (map ((@) ''Question:'') (s # segs)))
          = (Some (py_strip (concat (s # segs))), acc))
   \<and> ((\<forall>a\<in>set (s # segs). CHR ''A'' \<notin> set a) \<and> q' \<noteq> [] \<longrightarrow>
        qa_line f n c (Some q', acc) (concat (map ((@) ''Answer:'') (s # segs)))
          = (None, acc @ [\<lparr>question = q',
                  answer = py_strip (concat (s # segs)),
                  code_snippet = c,
                  reasoning = ''Generated from function '' @ n @ '' in '' @ path f
                                @ '' using StarCoder GGUF.'',
                  qa_file = path f, qa_repo = repo f\<rparr>]))"
proof (intro conjI impI)
  show "qa_line f n c (q, acc) ''Question: what does Question: mean''
      = (Some ''what does  mean'', acc)"
    by (simp add: qa_line_def py_strip_def py_isspace_def)
next
  assume h: "\<forall>a\<in>set (s # segs). CHR ''Q'' \<notin> set a"
  have eq: "concat (map ((@) ''Question:'') (s # segs))
              = ''Question:'' @ (s @ concat (map ((@) ''Question:'') segs))"
    by simp
  have a: "py_replace ''Question:'' [] (s @ concat (map ((@) ''Question:'') segs))
             = s @ py_replace ''Question:'' [] (concat (map ((@) ''Question:'') segs))"
    by (rule py_replace_skip) (use h in simp)
  have b: "py_replace ''Question:'' [] (concat (map ((@) ''Question:'') segs)) = concat segs"
    by (rule py_replace_segments) (use h in simp)
  show "qa_line f n c (q, acc) (concat (map ((@) ''Question:'') (s # segs)))
          = (Some (py_strip (concat (s # segs))), acc)"
    by (simp only: eq qa_line_question a b concat.simps)
next
  assume h: "(\<forall>a\<in>set (s # segs). CHR ''A'' \<notin> set a) \<and> q' \<noteq> []"
  have eq: "concat (map ((@) ''Answer:'') (s # segs))
              = ''Answer:'' @ (s @ concat (map ((@) ''Answer:'') segs))"
    by simp
  have a: "py_replace ''Answer:'' [] (s @ concat (map ((@) ''Answer:'') segs))
             = s @ py_replace ''Answer:'' [] (concat (map ((@) ''Answer:'') segs))"
    by (rule py_replace_skip) (use h in simp)
  have b: "py_replace ''Answer:'' [] (concat (map ((@) ''Answer:'') segs)) = concat segs"
    by (rule py_replace_segments) (use h in simp)
  have ne: "q' \<noteq> []" using h by simp
  show "qa_line f n c (Some q', acc) (concat (map ((@) ''Answer:'') (s # segs)))
          = (None, acc @ [\<lparr>question = q',
                  answer = py_strip (concat (s # segs)),
                  code_snippet = c,
                  reasoning = ''Generated from function '' @ n @ '' in '' @ path f
                                @ '' using StarCoder GGUF.'',
                  qa_file = path f, qa_repo = repo f\<rparr>])"
    by (simp only: eq qa_line_answer a b concat.simps ne simp_thms if_True)
qed

text \<open>The general statement with three occurrences of the marker in a line.\<close>

theorem every_marker_occurrence_removed_witness:
  "qa_line add_file ''add'' ''add'' (None, []) ''Question: what Question: does Question: mean''
      = (Some ''what  does  mean'', [])
   \<and> qa_line add_file ''add'' ''add'' (Some ''q'', []) ''Answer: the Answer: is''
      = (None, [\<lparr>question = ''q'', answer = ''the  is'', code_snippet = ''add'',
           reasoning = ''Generated from function add in add.py using StarCoder GGUF.'',
           qa_file = ''add.py'', qa_repo = ''flask''\<rparr>])"
proof -
  have q: "\<forall>a\<in>set ['' what '', '' does '', '' mean'']. CHR ''Q'' \<notin> set a" by simp
  have a: "\<forall>a\<in>set ['' the '', '' is'']. CHR ''A'' \<notin> set a" by simp
  show ?thesis
    using q a
      every_marker_occurrence_removed [where f = add_file and n = "''add''" and c = "''add''"
        and q = None and acc = "[]" and s = "'' what ''" and segs = "['' does '', '' mean'']"
        and q' = "''q''"]
      every_marker_occurrence_removed [where f = add_file and n = "''add''" and c = "''add''"
        and q = None and acc = "[]" and s = "'' the ''" and segs = "['' is'']"
        and q' = "''q''"]
    by (simp add: add_file_def py_strip_def py_isspace_def)
qed

section \<open>The claims on the pipeline\<close>

text \<open>Unfolding the pipeline and the concrete scenarios, for evaluation.\<close>

lemmas pipeline_defs =
  generate_qa_pairs_def qa_file_step_def load_PY_LANGUAGE_def module_globals_def
  file_handler_def qa_unit_def captures_of_def make_prompt_def
  py_slice_def parse_response_def qa_line_def py_strip_def py_isspace_def
  add_env_def flaky_env_def demo_env_def demo_parse_def add_file_def add_match_def
  add_source_def add_reply_def two_file_def two_source_def two_matches_def bad_file_def
  Let_def

lemmas main_defs =
  main_def main_handler_def initialize_model_def initialize_parser_def
  extract_code_def extract_file_def save_qa_pairs_def add_fs_def MODEL_PATH_def
  REPO_PATH_def OUTPUT_PATH_def FILE_EXTENSION_def posix_rglob_def posix_read_def
  posix_join_def posix_mkdir_def posix_parent_def posix_name_def

text \<open>
  In the module's own namespace the lookup of \<open>PY_LANGUAGE\<close> raises, for every file that
  parses, so no file adds a record.
\<close>

lemma load_module_globals:
  "load_PY_LANGUAGE module_globals = Inl (NameError ''name 'PY_LANGUAGE' is not defined'')"
  by (simp add: load_PY_LANGUAGE_def module_globals_def)

lemma qa_file_step_module:
  "qa_pairs (snd (qa_file_step E module_globals parser st f)) = qa_pairs st"
  by (cases "ts_parse E parser (content f)")
     (simp_all add: qa_file_step_def load_module_globals file_handler_keeps)

lemma qa_files_module:
  "qa_pairs (snd (qa_files E module_globals parser st fs)) = qa_pairs st"
proof (induction fs arbitrary: st)
  case Nil
  show ?case by simp
next
  case (Cons f fs)
  obtain r st' where u: "qa_file_step E module_globals parser st f = (r, st')"
    by (cases "qa_file_step E module_globals parser st f")
  then have k: "qa_pairs st' = qa_pairs st"
    using qa_file_step_module [of E parser st f] by simp
  show ?case
  proof (cases r)
    case None
    with u k Cons.IH [of st'] show ?thesis by simp
  next
    case (Some e)
    with u k show ?thesis by simp
  qed
qed

text \<open>
  Whatever the namespace, a record that a unit adds carries as \<open>code_snippet\<close> the slice
  of the file's text at the offsets of the captured node.
\<close>

lemma qa_line_snippet:
  "\<forall>r\<in>set acc. code_snippet r = c \<Longrightarrow>
     \<forall>r\<in>set (snd (qa_line f n c (q, acc) l)). code_snippet r = c"
  by (auto simp: qa_line_def split: option.splits)

lemma qa_lines_snippet:
  "\<forall>r\<in>set acc. code_snippet r = c \<Longrightarrow>
     \<forall>r\<in>set (snd (foldl (qa_line f n c) (q, acc) ls)). code_snippet r = c"
proof (induction ls arbitrary: q acc)
  case Nil
  then show ?case by simp
next
  case (Cons l ls)
  obtain q' acc' where st: "qa_line f n c (q, acc) l = (q', acc')"
    by (cases "qa_line f n c (q, acc) l")
  then have "\<forall>r\<in>set acc'. code_snippet r = c"
    using qa_line_snippet [OF Cons.prems, of f n q l] by simp
  then show ?case using Cons.IH [of acc' q'] st by simp
qed

lemma parse_response_snippet:
  "\<forall>r\<in>set (parse_response f n c response []). code_snippet r = c"
  using qa_lines_snippet [of "[]" c f n None] by (simp add: parse_response_def)

lemma qa_unit_snippet:
  "\<exists>rs. qa_pairs (snd (qa_unit E f st (node, nm))) = qa_pairs st @ rs
        \<and> (\<forall>r\<in>set rs. code_snippet r
               = py_slice (content f) (start_byte node) (end_byte node))"
proof -
  let ?c = "py_slice (content f) (start_byte node) (end_byte node)"
  obtain r m' where b: "backend E (model_state st) (make_prompt ?c) = (r, m')"
    by (cases "backend E (model_state st) (make_prompt ?c)")
  show ?thesis
  proof (cases r)
    case (Inl e)
    with b show ?thesis by (simp add: qa_unit_def Let_def)
  next
    case (Inr response)
    have "qa_pairs (snd (qa_unit E f st (node, nm)))
            = qa_pairs st @ parse_response f (node_text node) ?c response []"
      using b Inr parse_response_acc [of f "node_text node" ?c response "qa_pairs st"]
      by (simp add: qa_unit_def Let_def)
    then show ?thesis using parse_response_snippet [of f "node_text node" ?c response]
      by blast
  qed
qed

text \<open>
  The body of the loop over the captures on the unit of the file
  \<open>def add(a, b): return a + b\<close>: the node is the identifier \<open>add\<close>, and the two records
  carry the snippet \<open>add\<close>, where the slice at the offsets of the definition is the whole
  text of the function. In the module as it is, the loop is not reached (see the next
  theorem).
\<close>

lemma unit_snippet_is_the_name:
  "map code_snippet
      (qa_pairs (snd (qa_unit add_env add_file
                        \<lparr>qa_pairs = [], model_state = 0, stdout = []\<rparr>
                        (func_name_node add_match, ''func_name''))))
     = [''add'', ''add'']
   \<and> py_slice (content add_file) (start_byte (func_def add_match)) (end_byte (func_def add_match))
       = ''def add(a, b): return a + b''"
  by (simp add: pipeline_defs)

text \<open>
  Claim C2. The claim is that the scenario of one file with the function \<open>add\<close> and the
  given reply of the backend gives two records. In the module's own namespace
  \<open>generate_qa_pairs\<close> never gives a record, whatever the libraries, the files and the
  replies: in the scenario it returns the empty list and prints the \<open>NameError\<close>. \<open>main\<close>
  in the scenario ends with the \<open>RuntimeError\<close> of \<open>initialize_parser\<close> and writes nothing;
  and were the parser to initialise, \<open>main\<close> would write an empty dataset.
\<close>

theorem add_scenario_emits_nothing:
  "qa_pairs (snd (generate_qa_pairs E module_globals code_files parser m out)) = []
   \<and> generate_qa_pairs add_env module_globals [add_file] () 0 []
     = (None, \<lparr>qa_pairs = [], model_state = 0,
          stdout = [''Error processing file add.py: name 'PY_LANGUAGE' is not defined'']\<rparr>)
   \<and> main add_env add_fs
     = (Some (RuntimeError
                ''Failed to initialize parser: Argument to set_language must be a Language''),
        add_fs,
        [''Starting QA pair generation...'',
         ''Error in main execution: Failed to initialize parser: Argument to set_language must be a Language''])
   \<and> main (add_env\<lparr>ts_init := Inr ()\<rparr>) add_fs
     = (None,
        [(''C:/Users/cym/Documents/output_data/qa_pairs.json'', Dataset []),
         (''C:/Users/cym/Documents/output_data'', Dir),
         (''C:/Users/cym/models/starcoder-q5_K_M.gguf'', TextFile []),
         (''C:/Users/cym/Documents'', Dir),
         (''C:/Users/cym/Documents/flask'', Dir),
         (''C:/Users/cym/Documents/flask/add.py'', TextFile ''def add(a, b): return a + b'')],
        [''Starting QA pair generation...'',
         ''Extracted file: [USER_HOME]/Documents/flask/add.py'',
         ''Error processing file add.py: name 'PY_LANGUAGE' is not defined'',
         ''QA pairs saved to [USER_HOME]/Documents/output_data/qa_pairs.json'',
         ''QA pair generation completed.''])"
proof (intro conjI)
  show "qa_pairs (snd (generate_qa_pairs E module_globals code_files parser m out)) = []"
    by (simp add: generate_qa_pairs_def qa_files_module)
qed (simp_all add: pipeline_defs main_defs)

text \<open>
  Claim C6. A failure on one item does not stop the run, for the failures that
  \<open>except Exception\<close> catches. A file whose parse raises adds no record and one printed line
  with its path, and the files after it are processed from the state the files before it
  left; a unit for which the backend raises adds no record and one printed line with the
  path and the name, and the units after it are processed; a file that cannot be read is
  printed and the files after it are read. When every exception of the libraries is an
  \<open>Exception\<close>, \<open>generate_qa_pairs\<close> raises nothing; and the records in \<open>qa_pairs\<close> are
  never removed.
\<close>

theorem per_item_failures_are_skipped:
  "(ts_parse E parser (content f) = Inl e1 \<and> is_Exception e1
      \<and> qa_files E G parser st fs1 = (None, st1) \<longrightarrow>
     qa_files E G parser st (fs1 @ f # fs2)
       = qa_files E G parser
           (st1\<lparr>stdout := stdout st1 @
                   [''Error processing file '' @ path f @ '': '' @ exc_str e1]\<rparr>) fs2)
   \<and> (backend E (model_state su1)
           (make_prompt (py_slice (content fu) (start_byte node) (end_byte node))) = (Inl e2, m')
        \<and> is_Exception e2 \<and> qa_units E fu su caps1 = (None, su1) \<longrightarrow>
       qa_units E fu su (caps1 @ (node, nm) # caps2)
         = qa_units E fu
             (su1\<lparr>model_state := m',
                  stdout := stdout su1 @
                    [''Failed to generate QA for '' @ path fu @ '', function ''
                       @ node_text node @ '': '' @ exc_str e2]\<rparr>) caps2)
   \<and> (read_text E fsys root rel = Inl e3 \<and> is_Exception e3
        \<and> extract_files E fsys root sx rels1 = (None, cfs, out1) \<longrightarrow>
       extract_files E fsys root sx (rels1 @ rel # rels2)
         = extract_files E fsys root
             (cfs, out1 @ [''Failed to read file '' @ rel @ '': '' @ exc_str e3]) rels2)
   \<and> ((\<forall>p c e. ts_parse E p c = Inl e \<longrightarrow> is_Exception e)
        \<and> (\<forall>l t e. ts_query E l t = Inl e \<longrightarrow> is_Exception e)
        \<and> (\<forall>m pr e m'. backend E m pr = (Inl e, m') \<longrightarrow> is_Exception e) \<longrightarrow>
       fst (generate_qa_pairs E G code_files parser m0 out0) = None)
   \<and> (\<exists>rs. qa_pairs (snd (qa_files E G parser st fs)) = qa_pairs st @ rs)"
proof (intro conjI impI)
  assume h: "ts_parse E parser (content f) = Inl e1 \<and> is_Exception e1
      \<and> qa_files E G parser st fs1 = (None, st1)"
  then have "qa_file_step E G parser st1 f =
       (None, st1\<lparr>stdout := stdout st1 @
                 [''Error processing file '' @ path f @ '': '' @ exc_str e1]\<rparr>)"
    by (simp add: qa_file_step_parse_error)
  with h show "qa_files E G parser st (fs1 @ f # fs2)
       = qa_files E G parser
           (st1\<lparr>stdout := stdout st1 @
                   [''Error processing file '' @ path f @ '': '' @ exc_str e1]\<rparr>) fs2"
    by (simp add: qa_files_append)
next
  assume h: "backend E (model_state su1)
           (make_prompt (py_slice (content fu) (start_byte node) (end_byte node))) = (Inl e2, m')
        \<and> is_Exception e2 \<and> qa_units E fu su caps1 = (None, su1)"
  then have "qa_unit E fu su1 (node, nm) =
       (None, su1\<lparr>model_state := m',
                 stdout := stdout su1 @
                   [''Failed to generate QA for '' @ path fu @ '', function ''
                      @ node_text node @ '': '' @ exc_str e2]\<rparr>)"
    by (simp add: qa_unit_backend_error)
  with h show "qa_units E fu su (caps1 @ (node, nm) # caps2)
         = qa_units E fu
             (su1\<lparr>model_state := m',
                  stdout := stdout su1 @
                    [''Failed to generate QA for '' @ path fu @ '', function ''
                       @ node_text node @ '': '' @ exc_str e2]\<rparr>) caps2"
    by (simp add: qa_units_append)
next
  assume h: "read_text E fsys root rel = Inl e3 \<and> is_Exception e3
        \<and> extract_files E fsys root sx rels1 = (None, cfs, out1)"
  then have "extract_file E fsys root (cfs, out1) rel =
       (None, cfs, out1 @ [''Failed to read file '' @ rel @ '': '' @ exc_str e3])"
    by (simp add: extract_file_read_error)
  with h show "extract_files E fsys root sx (rels1 @ rel # rels2)
         = extract_files E fsys root
             (cfs, out1 @ [''Failed to read file '' @ rel @ '': '' @ exc_str e3]) rels2"
    by (simp add: extract_files_append)
next
  assume h: "(\<forall>p c e. ts_parse E p c = Inl e \<longrightarrow> is_Exception e)
        \<and> (\<forall>l t e. ts_query E l t = Inl e \<longrightarrow> is_Exception e)
        \<and> (\<forall>m pr e m'. backend E m pr = (Inl e, m') \<longrightarrow> is_Exception e)"
  then show "fst (generate_qa_pairs E G code_files parser m0 out0) = None"
    unfolding generate_qa_pairs_def by (intro qa_files_no_raise) blast+
next
  show "\<exists>rs. qa_pairs (snd (qa_files E G parser st fs)) = qa_pairs st @ rs"
    by (rule qa_files_keeps)
qed

text \<open>
  The statement on three files in the module's namespace, with a parser that raises on
  the first file; on the two units of a file, with a backend that raises on the first; and
  on the reading of two files, the first of which is a directory.
\<close>

theorem per_item_failures_are_skipped_witness:
  "ts_parse flaky_env () (content bad_file) = Inl (ValueError ''no tree'')
   \<and> backend flaky_env 0 (make_prompt ''f'') = (Inl (OtherException ''backend unavailable''), 1)
   \<and> generate_qa_pairs flaky_env module_globals [bad_file, two_file, add_file] () 0 []
       = (None,
          \<lparr>qa_pairs = [], model_state = 0,
           stdout = [''Error processing file bad.py: no tree'',
                     ''Error processing file two.py: name 'PY_LANGUAGE' is not defined'',
                     ''Error processing file add.py: name 'PY_LANGUAGE' is not defined'']\<rparr>)
   \<and> fst (generate_qa_pairs flaky_env module_globals
              [bad_file, two_file, add_file] () 0 []) = None
   \<and> stdout (snd (qa_units flaky_env two_file
                      \<lparr>qa_pairs = [], model_state = 0, stdout = []\<rparr> (captures_of two_matches)))
       = [''Failed to generate QA for two.py, function f: backend unavailable'']
   \<and> map question (qa_pairs (snd (qa_units flaky_env two_file
                      \<lparr>qa_pairs = [], model_state = 0, stdout = []\<rparr> (captures_of two_matches))))
       = [''What does it do?'', ''What are its inputs?'']
   \<and> read_text flaky_env [(''r/a.py'', Dir), (''r/b.py'', TextFile ''x'')] ''r'' ''a.py''
       = Inl (OtherException ''[Errno 21] Is a directory'')
   \<and> extract_files flaky_env [(''r/a.py'', Dir), (''r/b.py'', TextFile ''x'')] ''r'' ([], [])
         [''a.py'', ''b.py'']
       = (None, [\<lparr>path = ''b.py'', content = ''x'', repo = ''r''\<rparr>],
          [''Failed to read file a.py: [Errno 21] Is a directory'',
           ''Extracted file: [USER_HOME]/Documents/flask/b.py''])"
proof -
  let ?G = "module_globals :: string \<Rightarrow> unit py_global option"
  let ?st = "\<lparr>qa_pairs = [], model_state = 0::nat, stdout = []\<rparr>"
  let ?fsys = "[(''r/a.py'', Dir), (''r/b.py'', TextFile ''x'')]"
  have p: "ts_parse flaky_env () (content bad_file) = Inl (ValueError ''no tree'')"
    by (simp add: pipeline_defs)
  have b: "backend flaky_env 0 (make_prompt ''f'') = (Inl (OtherException ''backend unavailable''), 1)"
    by (simp add: flaky_env_def demo_env_def)
  have r: "read_text flaky_env ?fsys ''r'' ''a.py'' = Inl (OtherException ''[Errno 21] Is a directory'')"
    by (simp add: flaky_env_def demo_env_def posix_read_def posix_join_def)
  have sl: "py_slice (content two_file) 4 5 = ''f''"
    by (simp add: two_file_def two_source_def py_slice_def)
  note t = per_item_failures_are_skipped [where E = flaky_env and G = ?G and parser = "()"]
  have files: "qa_files flaky_env ?G () ?st ([] @ bad_file # [two_file, add_file])
       = qa_files flaky_env ?G ()
           (?st\<lparr>stdout := stdout ?st @
                   [''Error processing file '' @ path bad_file @ '': '' @ exc_str (ValueError ''no tree'')]\<rparr>)
           [two_file, add_file]"
    using p t [where f = bad_file and ?e1.0 = "ValueError ''no tree''" and st = ?st
                 and ?fs1.0 = "[]" and ?st1.0 = ?st and ?fs2.0 = "[two_file, add_file]"]
    by simp
  have units: "qa_units flaky_env two_file ?st
         ([] @ (\<lparr>node_text = ''f'', start_byte = 4, end_byte = 5\<rparr>, ''func_name'')
             # [(\<lparr>node_text = ''g'', start_byte = 18, end_byte = 19\<rparr>, ''func_name'')])
       = qa_units flaky_env two_file
           (?st\<lparr>model_state := 1,
                 stdout := stdout ?st @
                   [''Failed to generate QA for '' @ path two_file @ '', function ''
                      @ node_text \<lparr>node_text = ''f'', start_byte = 4, end_byte = 5\<rparr> @ '': ''
                      @ exc_str (OtherException ''backend unavailable'')]\<rparr>)
           [(\<lparr>node_text = ''g'', start_byte = 18, end_byte = 19\<rparr>, ''func_name'')]"
    using b sl t [where fu = two_file and su = ?st and ?su1.0 = ?st and ?caps1.0 = "[]"
                    and node = "\<lparr>node_text = ''f'', start_byte = 4, end_byte = 5\<rparr>"
                    and nm = "''func_name''" and ?e2.0 = "OtherException ''backend unavailable''"
                    and m' = 1
                    and ?caps2.0 = "[(\<lparr>node_text = ''g'', start_byte = 18, end_byte = 19\<rparr>, ''func_name'')]"]
    by simp
  have reads: "extract_files flaky_env ?fsys ''r'' ([], []) ([] @ ''a.py'' # [''b.py''])
       = extract_files flaky_env ?fsys ''r''
           ([], [] @ [''Failed to read file '' @ ''a.py'' @ '': ''
                        @ exc_str (OtherException ''[Errno 21] Is a directory'')]) [''b.py'']"
    using r t [where fsys = ?fsys and root = "''r''" and rel = "''a.py''"
                 and ?e3.0 = "OtherException ''[Errno 21] Is a directory''"
                 and sx = "([], [])" and ?rels1.0 = "[]" and cfs = "[]" and ?out1.0 = "[]"
                 and ?rels2.0 = "[''b.py'']"]
    by simp
  have gen: "generate_qa_pairs flaky_env ?G [bad_file, two_file, add_file] () 0 []
       = qa_files flaky_env ?G ()
           (?st\<lparr>stdout := stdout ?st @
                   [''Error processing file '' @ path bad_file @ '': '' @ exc_str (ValueError ''no tree'')]\<rparr>)
           [two_file, add_file]"
    using files by (simp add: generate_qa_pairs_def)
  have exc: "(\<forall>p c e. ts_parse flaky_env p c = Inl e \<longrightarrow> is_Exception e)
        \<and> (\<forall>l t e. ts_query flaky_env l t = Inl e \<longrightarrow> is_Exception e)
        \<and> (\<forall>m pr e m'. backend flaky_env m pr = (Inl e, m') \<longrightarrow> is_Exception e)"
    by (auto simp: flaky_env_def demo_env_def demo_parse_def split: if_splits)
  have nr: "fst (generate_qa_pairs flaky_env ?G [bad_file, two_file, add_file] () 0 []) = None"
    using exc t [where code_files = "[bad_file, two_file, add_file]" and ?m0.0 = 0
                   and ?out0.0 = "[]", THEN conjunct2, THEN conjunct2, THEN conjunct2,
                   THEN conjunct1]
    by blast
  have caps: "captures_of two_matches
       = [] @ (\<lparr>node_text = ''f'', start_byte = 4, end_byte = 5\<rparr>, ''func_name'')
             # [(\<lparr>node_text = ''g'', start_byte = 18, end_byte = 19\<rparr>, ''func_name'')]"
    by (simp add: captures_of_def two_matches_def)
  show ?thesis
  proof (intro conjI)
    show "ts_parse flaky_env () (content bad_file) = Inl (ValueError ''no tree'')"
      by (rule p)
    show "backend flaky_env 0 (make_prompt ''f'')
            = (Inl (OtherException ''backend unavailable''), 1)"
      by (rule b)
    show "fst (generate_qa_pairs flaky_env ?G [bad_file, two_file, add_file] () 0 []) = None"
      by (rule nr)
    show "read_text flaky_env ?fsys ''r'' ''a.py''
            = Inl (OtherException ''[Errno 21] Is a directory'')"
      by (rule r)
    show "stdout (snd (qa_units flaky_env two_file ?st (captures_of two_matches)))
            = [''Failed to generate QA for two.py, function f: backend unavailable'']"
      by (simp only: caps units) (simp add: pipeline_defs)
    show "map question (qa_pairs (snd (qa_units flaky_env two_file ?st (captures_of two_matches))))
            = [''What does it do?'', ''What are its inputs?'']"
      by (simp only: caps units) (simp add: pipeline_defs)
    show "extract_files flaky_env ?fsys ''r'' ([], []) [''a.py'', ''b.py'']
            = (None, [\<lparr>path = ''b.py'', content = ''x'', repo = ''r''\<rparr>],
               [''Failed to read file a.py: [Errno 21] Is a directory'',
                ''Extracted file: [USER_HOME]/Documents/flask/b.py''])"
      using reads
      by (simp add: flaky_env_def demo_env_def extract_file_def posix_read_def posix_join_def
            posix_name_def)
  next
    show "generate_qa_pairs flaky_env ?G [bad_file, two_file, add_file] () 0 []
       = (None,
          \<lparr>qa_pairs = [], model_state = 0,
           stdout = [''Error processing file bad.py: no tree'',
                     ''Error processing file two.py: name 'PY_LANGUAGE' is not defined'',
                     ''Error processing file add.py: name 'PY_LANGUAGE' is not defined'']\<rparr>)"
      by (simp only: gen) (simp add: pipeline_defs)
  qed
qed

text \<open>
  Claim C7, amended. A missing model file makes \<open>initialize_model\<close> raise
  \<open>FileNotFoundError\<close>, which leaves \<open>main\<close> after the line of its handler, with no file
  extracted, no call of the backend and nothing written. A missing repository makes
  \<open>extract_code\<close> raise \<open>ValueError\<close>, a different exception, and this leaves \<open>main\<close> in
  the same way when the load of the model and the initialisation of the parser, which
  come first, have succeeded. When the initialisation of the parser raises, \<open>main\<close> ends
  with the \<open>RuntimeError\<close> of \<open>initialize_parser\<close>, whether the repository is there or
  not.
\<close>

theorem initialization_errors_are_fatal:
  "(\<not> path_exists E fs model_path \<longrightarrow>
      initialize_model E fs model_path n_ctx
        = Inl (FileNotFoundError
                 ''Model file not found at [USER_HOME]/models/starcoder-q5_K_M.gguf''))
   \<and> (\<not> path_exists E fs repo_path \<longrightarrow>
        extract_code E fs repo_path ext out
          = (Inl (ValueError ''Repository path [USER_HOME]/Documents/flask does not exist''),
             out))
   \<and> (\<not> path_exists E fs MODEL_PATH \<longrightarrow>
        main E fs
          = (Some (FileNotFoundError
                     ''Model file not found at [USER_HOME]/models/starcoder-q5_K_M.gguf''),
             fs,
             [''Starting QA pair generation...'',
              ''Error in main execution: Model file not found at [USER_HOME]/models/starcoder-q5_K_M.gguf'']))
   \<and> (path_exists E fs MODEL_PATH \<and> llama_load E fs MODEL_PATH 2048 = Inr model
        \<and> ts_init E = Inr parser \<and> \<not> path_exists E fs REPO_PATH \<longrightarrow>
        main E fs
          = (Some (ValueError ''Repository path [USER_HOME]/Documents/flask does not exist''),
             fs,
             [''Starting QA pair generation...'',
              ''Error in main execution: Repository path [USER_HOME]/Documents/flask does not exist'']))
   \<and> (path_exists E fs MODEL_PATH \<and> llama_load E fs MODEL_PATH 2048 = Inr model
        \<and> ts_init E = Inl e \<and> is_Exception e \<longrightarrow>
        main E fs
          = (Some (RuntimeError (''Failed to initialize parser: '' @ exc_str e)),
             fs,
             [''Starting QA pair generation...'',
              ''Error in main execution: Failed to initialize parser: '' @ exc_str e]))
   \<and> (\<forall>a b. FileNotFoundError a \<noteq> ValueError b)
   \<and> (\<forall>a b. RuntimeError a \<noteq> ValueError b)"
  by (simp add: initialize_model_def extract_code_def main_def main_handler_def
        initialize_parser_def)

text \<open>
  The amended statement on a file system without the model, and on one with the model
  and without the repository: there \<open>main\<close> ends with \<open>RuntimeError\<close> when the parser does
  not initialise, and with \<open>ValueError\<close> when it does.
\<close>

theorem initialization_errors_are_fatal_witness:
  "\<not> path_exists add_env [] MODEL_PATH
   \<and> main add_env []
       = (Some (FileNotFoundError
                  ''Model file not found at [USER_HOME]/models/starcoder-q5_K_M.gguf''),
          [],
          [''Starting QA pair generation...'',
           ''Error in main execution: Model file not found at [USER_HOME]/models/starcoder-q5_K_M.gguf''])
   \<and> path_exists add_env [(MODEL_PATH, TextFile [])] MODEL_PATH
   \<and> \<not> path_exists add_env [(MODEL_PATH, TextFile [])] REPO_PATH
   \<and> ts_init add_env = Inl (TypeError ''Argument to set_language must be a Language'')
   \<and> main add_env [(MODEL_PATH, TextFile [])]
       = (Some (RuntimeError
                  ''Failed to initialize parser: Argument to set_language must be a Language''),
          [(MODEL_PATH, TextFile [])],
          [''Starting QA pair generation...'',
           ''Error in main execution: Failed to initialize parser: Argument to set_language must be a Language''])
   \<and> main (add_env\<lparr>ts_init := Inr ()\<rparr>) [(MODEL_PATH, TextFile [])]
       = (Some (ValueError ''Repository path [USER_HOME]/Documents/flask does not exist''),
          [(MODEL_PATH, TextFile [])],
          [''Starting QA pair generation...'',
           ''Error in main execution: Repository path [USER_HOME]/Documents/flask does not exist''])"
proof -
  let ?ok = "add_env\<lparr>ts_init := Inr ()\<rparr>"
  let ?fs = "[(MODEL_PATH, TextFile [])]"
  have m: "\<not> path_exists add_env [] MODEL_PATH"
    by (simp add: add_env_def demo_env_def)
  have r: "path_exists add_env ?fs MODEL_PATH
           \<and> llama_load add_env ?fs MODEL_PATH 2048 = Inr 0
           \<and> ts_init add_env = Inl (TypeError ''Argument to set_language must be a Language'')
           \<and> is_Exception (TypeError ''Argument to set_language must be a Language'')
           \<and> \<not> path_exists add_env ?fs REPO_PATH"
    by (simp add: add_env_def demo_env_def MODEL_PATH_def REPO_PATH_def)
  have k: "path_exists ?ok ?fs MODEL_PATH
           \<and> llama_load ?ok ?fs MODEL_PATH 2048 = Inr 0
           \<and> ts_init ?ok = Inr ()
           \<and> \<not> path_exists ?ok ?fs REPO_PATH"
    by (simp add: add_env_def demo_env_def MODEL_PATH_def REPO_PATH_def)
  show ?thesis
    using m r k
      initialization_errors_are_fatal [where E = add_env and fs = "[]"]
      initialization_errors_are_fatal [where E = add_env and fs = ?fs and model = 0
        and e = "TypeError ''Argument to set_language must be a Language''"]
      initialization_errors_are_fatal [where E = ?ok and fs = ?fs and model = 0
        and parser = "()"]
    by simp
qed

text \<open>
  Claim C7 as stated fails: with the model file there, the repository missing and a parser
  that does not initialise, what leaves \<open>main\<close> is \<open>RuntimeError\<close>, not \<open>ValueError\<close>.
\<close>

theorem missing_repository_counterexample:
  "\<not> path_exists add_env [(MODEL_PATH, TextFile [])] REPO_PATH
   \<and> main add_env [(MODEL_PATH, TextFile [])]
       = (Some (RuntimeError
                  ''Failed to initialize parser: Argument to set_language must be a Language''),
          [(MODEL_PATH, TextFile [])],
          [''Starting QA pair generation...'',
           ''Error in main execution: Failed to initialize parser: Argument to set_language must be a Language''])"
  by (simp add: main_def main_handler_def initialize_model_def initialize_parser_def
        add_env_def demo_env_def MODEL_PATH_def REPO_PATH_def)

text \<open>
  Claim C8, amended. \<open>save_qa_pairs\<close> raises exactly when the creation of the directory
  raises (it is called before the \<open>try\<close>) or the write raises something that is not an
  \<open>Exception\<close>. When the directory is there already, or is absent with its parent there,
  the creation succeeds; a failure of the write that is an \<open>Exception\<close> is then caught and
  printed with the path of the file, and nothing is raised.
\<close>

theorem save_qa_pairs_failures:
  "(mkdir_exist_ok E fs output_dir = Inl e \<longrightarrow>
      save_qa_pairs E qas output_dir fs out = (Some e, fs, out))
   \<and> (mkdir_exist_ok E fs output_dir = Inr fs1
        \<and> to_json E fs1 (path_join E output_dir ''qa_pairs.json'') qas = (Some e', fs2)
        \<and> is_Exception e' \<longrightarrow>
       save_qa_pairs E qas output_dir fs out
         = (None, fs2,
            out @ [''Failed to save QA pairs to '' @ path_join E output_dir ''qa_pairs.json''
                     @ '': '' @ exc_str e']))
   \<and> (mkdir_exist_ok E fs output_dir = Inr fs1
        \<and> to_json E fs1 (path_join E output_dir ''qa_pairs.json'') qas = (None, fs2) \<longrightarrow>
       save_qa_pairs E qas output_dir fs out
         = (None, fs2,
            out @ [''QA pairs saved to [USER_HOME]/Documents/output_data/qa_pairs.json'']))
   \<and> (fst (save_qa_pairs E qas output_dir fs out) = None \<longleftrightarrow>
        (\<exists>fs1. mkdir_exist_ok E fs output_dir = Inr fs1
           \<and> (\<forall>x fs2. to_json E fs1 (path_join E output_dir ''qa_pairs.json'') qas
                          = (Some x, fs2) \<longrightarrow> is_Exception x)))
   \<and> (map_of pfs d = Some Dir \<longrightarrow>
        save_qa_pairs (demo_env prs bk) qas d pfs out
          = (None, (posix_join d ''qa_pairs.json'', Dataset qas) # pfs,
             out @ [''QA pairs saved to [USER_HOME]/Documents/output_data/qa_pairs.json'']))
   \<and> (map_of pfs d = None \<and> map_of pfs (posix_parent d) = Some Dir \<longrightarrow>
        save_qa_pairs (demo_env prs bk) qas d pfs out
          = (None, (posix_join d ''qa_pairs.json'', Dataset qas) # (d, Dir) # pfs,
             out @ [''QA pairs saved to [USER_HOME]/Documents/output_data/qa_pairs.json'']))"
proof (intro conjI impI)
  show "fst (save_qa_pairs E qas output_dir fs out) = None \<longleftrightarrow>
        (\<exists>fs1. mkdir_exist_ok E fs output_dir = Inr fs1
           \<and> (\<forall>x fs2. to_json E fs1 (path_join E output_dir ''qa_pairs.json'') qas
                          = (Some x, fs2) \<longrightarrow> is_Exception x))"
  proof (cases "mkdir_exist_ok E fs output_dir")
    case (Inl e0)
    then show ?thesis by (simp add: save_qa_pairs_def)
  next
    case (Inr fs1)
    obtain r fs2 where w: "to_json E fs1 (path_join E output_dir ''qa_pairs.json'') qas = (r, fs2)"
      by (cases "to_json E fs1 (path_join E output_dir ''qa_pairs.json'') qas")
    show ?thesis
    proof (cases r)
      case None
      with Inr w show ?thesis by (simp add: save_qa_pairs_def Let_def)
    next
      case (Some x)
      with Inr w show ?thesis by (simp add: save_qa_pairs_def Let_def)
    qed
  qed
qed (simp_all add: save_qa_pairs_def Let_def demo_env_def posix_mkdir_def)

text \<open>
  The amended statement on concrete file systems: the directory there, the directory
  created, a write that fails, and a creation that fails.
\<close>

theorem save_qa_pairs_failures_witness:
  "save_qa_pairs add_env [] ''out'' [(''out'', Dir)] []
     = (None, [(''out/qa_pairs.json'', Dataset []), (''out'', Dir)],
        [''QA pairs saved to [USER_HOME]/Documents/output_data/qa_pairs.json''])
   \<and> save_qa_pairs add_env [] ''d/out'' [(''d'', Dir)] []
     = (None, [(''d/out/qa_pairs.json'', Dataset []), (''d/out'', Dir), (''d'', Dir)],
        [''QA pairs saved to [USER_HOME]/Documents/output_data/qa_pairs.json''])
   \<and> save_qa_pairs (add_env\<lparr>to_json := \<lambda>fs p qas. (Some (OtherException ''disk full''), fs)\<rparr>)
        [] ''out'' [(''out'', Dir)] []
     = (None, [(''out'', Dir)], [''Failed to save QA pairs to out/qa_pairs.json: disk full''])
   \<and> save_qa_pairs add_env [] ''nodir/out'' [] []
     = (Some (FileNotFoundError ''[Errno 2] No such file or directory: nodir/out''), [], [])"
proof -
  let ?full = "add_env\<lparr>to_json := \<lambda>fs p qas. (Some (OtherException ''disk full''), fs)\<rparr>"
  have a: "map_of [(''out'', Dir)] ''out'' = Some Dir" by simp
  have b: "map_of [(''d'', Dir)] ''d/out'' = None \<and> map_of [(''d'', Dir)] (posix_parent ''d/out'') = Some Dir"
    by (simp add: posix_parent_def)
  have c: "mkdir_exist_ok ?full [(''out'', Dir)] ''out'' = Inr [(''out'', Dir)]
           \<and> to_json ?full [(''out'', Dir)] (path_join ?full ''out'' ''qa_pairs.json'') []
                = (Some (OtherException ''disk full''), [(''out'', Dir)])
           \<and> is_Exception (OtherException ''disk full'')"
    by (simp add: add_env_def demo_env_def posix_mkdir_def)
  have d: "mkdir_exist_ok add_env [] ''nodir/out''
             = Inl (FileNotFoundError ''[Errno 2] No such file or directory: nodir/out'')"
    by (simp add: add_env_def demo_env_def posix_mkdir_def posix_parent_def)
  have j: "path_join ?full ''out'' ''qa_pairs.json'' = ''out/qa_pairs.json''"
    "posix_join ''out'' ''qa_pairs.json'' = ''out/qa_pairs.json''"
    "posix_join ''d/out'' ''qa_pairs.json'' = ''d/out/qa_pairs.json''"
    by (simp_all add: add_env_def demo_env_def posix_join_def)
  show ?thesis
    using a b c d j
      save_qa_pairs_failures [where pfs = "[(''out'', Dir)]" and d = "''out''" and qas = "[]"
        and prs = demo_parse and bk = "\<lambda>m prompt. Inr add_reply" and out = "[]"]
      save_qa_pairs_failures [where pfs = "[(''d'', Dir)]" and d = "''d/out''" and qas = "[]"
        and prs = demo_parse and bk = "\<lambda>m prompt. Inr add_reply" and out = "[]"]
      save_qa_pairs_failures [where E = ?full and fs = "[(''out'', Dir)]" and output_dir = "''out''"
        and ?fs1.0 = "[(''out'', Dir)]" and ?fs2.0 = "[(''out'', Dir)]" and qas = "[]"
        and e' = "OtherException ''disk full''" and out = "[]"]
      save_qa_pairs_failures [where E = add_env and fs = "[]" and output_dir = "''nodir/out''"
        and qas = "[]" and out = "[]"
        and e = "FileNotFoundError ''[Errno 2] No such file or directory: nodir/out''"]
    by (simp add: add_env_def)
qed

text \<open>
  Claim C8 as stated fails: \<open>save_qa_pairs\<close> raises \<open>FileNotFoundError\<close> when the parent of
  the output directory is missing, and \<open>FileExistsError\<close> when the path is a regular file.
\<close>

theorem save_qa_pairs_raises_counterexample:
  "save_qa_pairs add_env [] ''nodir/out'' [] []
     = (Some (FileNotFoundError ''[Errno 2] No such file or directory: nodir/out''), [], [])
   \<and> save_qa_pairs add_env [] ''out'' [(''out'', TextFile ''x'')] []
     = (Some (FileExistsError ''[Errno 17] File exists: out''), [(''out'', TextFile ''x'')], [])"
  by (simp add: save_qa_pairs_def add_env_def demo_env_def posix_mkdir_def posix_parent_def)

end
